theory Spec2Isabelle
  imports Complex_Main "HOL-Library.Word"
begin

section \<open>JavaScript strings\<close>

text \<open>
  A JavaScript string is a sequence of UTF-16 code units. \<open>String.prototype.trim\<close> and
  the regular-expression classes \<open>\s\<close> and \<open>\S\<close> (without the \<open>u\<close> flag) work on
  code units, so the model keeps them: a string is a list of 16-bit words.
  String literals of the source are ASCII; \<open>js\<close> embeds them.
\<close>

type_synonym code_unit = "16 word"
type_synonym jsstring = "code_unit list"

definition js :: "string \<Rightarrow> jsstring" where
  "js s = map (\<lambda>c. of_nat (of_char c)) s"

text \<open>
  WhiteSpace and LineTerminator of ECMAScript: TAB, LF, VT, FF, CR, SPACE, NBSP,
  the Unicode space separators (category Zs), LS, PS and the byte order mark.
  Both \<open>trim\<close> and the class \<open>\s\<close> use exactly this set.
\<close>

definition js_whitespace :: "code_unit \<Rightarrow> bool" where
  "js_whitespace c \<longleftrightarrow>
     c = 0x0009 \<or> c = 0x000A \<or> c = 0x000B \<or> c = 0x000C \<or> c = 0x000D \<or>
     c = 0x0020 \<or> c = 0x00A0 \<or> c = 0x1680 \<or> (0x2000 \<le> c \<and> c \<le> 0x200A) \<or>
     c = 0x2028 \<or> c = 0x2029 \<or> c = 0x202F \<or> c = 0x205F \<or> c = 0x3000 \<or>
     c = 0xFEFF"

definition trimStart :: "jsstring \<Rightarrow> jsstring" where
  "trimStart s = dropWhile js_whitespace s"

definition trim :: "jsstring \<Rightarrow> jsstring" where
  "trim s = rev (dropWhile js_whitespace (rev (dropWhile js_whitespace s)))"

text \<open>Template literals print \<open>results.length\<close> in decimal.\<close>

fun decimal_digits :: "nat \<Rightarrow> jsstring" where
  "decimal_digits n =
     (if n < 10 then [of_nat (48 + n)]
      else decimal_digits (n div 10) @ [of_nat (48 + n mod 10)])"

section \<open>Regular expressions\<close>

text \<open>
  The fragment of the regular-expression language the source uses: character classes,
  literal characters, concatenation and \<open>+\<close>. \<open>RegExp.prototype.test\<close> without anchors
  answers whether some substring matches; the pattern has no back-references or
  look-around, so the backtracking search of the engine finds a match exactly when one
  exists, and derivatives decide the same question.
\<close>

datatype regex =
    Fail
  | Eps
  | Class "code_unit \<Rightarrow> bool"
  | Cat regex regex
  | Alt regex regex
  | Rep regex

fun nullable :: "regex \<Rightarrow> bool" where
  "nullable Fail = False"
| "nullable Eps = True"
| "nullable (Class p) = False"
| "nullable (Cat r s) = (nullable r \<and> nullable s)"
| "nullable (Alt r s) = (nullable r \<or> nullable s)"
| "nullable (Rep r) = True"

fun deriv :: "code_unit \<Rightarrow> regex \<Rightarrow> regex" where
  "deriv c Fail = Fail"
| "deriv c Eps = Fail"
| "deriv c (Class p) = (if p c then Eps else Fail)"
| "deriv c (Cat r s) =
     (if nullable r then Alt (Cat (deriv c r) s) (deriv c s) else Cat (deriv c r) s)"
| "deriv c (Alt r s) = Alt (deriv c r) (deriv c s)"
| "deriv c (Rep r) = Cat (deriv c r) (Rep r)"

definition matches :: "regex \<Rightarrow> jsstring \<Rightarrow> bool" where
  "matches r s = nullable (foldl (\<lambda>q c. deriv c q) r s)"

definition Lit :: "code_unit \<Rightarrow> regex" where
  "Lit c = Class (\<lambda>x. x = c)"

definition Plus :: "regex \<Rightarrow> regex" where
  "Plus r = Cat r (Rep r)"

definition AnyUnit :: regex where
  "AnyUnit = Class (\<lambda>x. True)"

text \<open>\<open>regex.test(s)\<close> for a pattern without anchors and flags: a match anywhere in \<open>s\<close>.\<close>

definition regex_test :: "regex \<Rightarrow> jsstring \<Rightarrow> bool" where
  "regex_test r s = matches (Cat (Rep AnyUnit) (Cat r (Rep AnyUnit))) s"

text \<open>The pattern \<^verbatim>\<open>/\S+@\S+\.\S+/\<close> of \<open>validateForm\<close>.\<close>

definition NonSpace :: regex where
  "NonSpace = Class (\<lambda>x. \<not> js_whitespace x)"

definition email_pattern :: regex where
  "email_pattern =
     Cat (Plus NonSpace) (Cat (Lit 0x40) (Cat (Plus NonSpace) (Cat (Lit 0x2E) (Plus NonSpace))))"

section \<open>JavaScript numbers\<close>

text \<open>
  \<open>validateForm\<close> compares the salary with \<open>0\<close> and \<open>handleSubmit\<close> passes it through
  \<open>parseFloat\<close>. A number is \<open>NaN\<close>, an infinity or a finite double; a finite double is
  represented by the rational it denotes, and \<open>-0\<close> is identified with \<open>0\<close> (both are
  falsy and neither is below zero). The value of a literal is rounded to the nearest
  double, ties to the even mantissa, as IEEE 754 and ECMAScript say.
\<close>

datatype jsnum = NaN | PosInfinity | NegInfinity | Finite rat

text \<open>
  The mathematical value of a literal: infinite, or the quotient \<open>p / q\<close> of two natural
  numbers, \<open>q > 0\<close> (the digits and a power of ten).
\<close>

datatype magnitude = Infinite | Ratio nat nat

text \<open>\<open>log2_floor n\<close> is the exponent of the highest power of two up to \<open>n\<close>, for \<open>n > 0\<close>.\<close>

fun log2_floor :: "nat \<Rightarrow> nat" where
  "log2_floor n = (if n < 2 then 0 else log2_floor (n div 2) + 1)"

declare log2_floor.simps [simp del]

text \<open>
  The binade of \<open>p / q > 0\<close>: the exponent \<open>e\<close> with \<open>2^e \<le> p / q < 2^(e + 1)\<close>. From one
  on it is that of the integer part; below one, \<open>- e\<close> is the least \<open>k\<close> with
  \<open>q / p \<le> 2^k\<close>, found from \<open>q / p\<close> rounded up.
\<close>

definition binade :: "nat \<Rightarrow> nat \<Rightarrow> int" where
  "binade p q =
     (if q \<le> p then int (log2_floor (p div q))
      else - int (log2_floor ((q + p - 1) div p - 1)) - 1)"

definition pow2 :: "int \<Rightarrow> rat" where
  "pow2 e = (if 0 \<le> e then 2 ^ nat e else 1 / 2 ^ nat (- e))"

text \<open>The integer nearest to \<open>a / b\<close>, the even one of two that are equally near.\<close>

definition round_half_even :: "nat \<Rightarrow> nat \<Rightarrow> nat" where
  "round_half_even a b =
     (if 2 * (a mod b) < b then a div b
      else if b < 2 * (a mod b) then a div b + 1
      else if even (a div b) then a div b else a div b + 1)"

text \<open>
  The double nearest to \<open>p / q\<close>: a multiple of \<open>2^s\<close>, where \<open>s\<close> leaves a mantissa of 53
  bits at the binade of \<open>p / q\<close> and is \<open>- 1074\<close> for a subnormal; \<open>None\<close> when the result
  is beyond the largest double.
\<close>

definition nearest_double :: "nat \<Rightarrow> nat \<Rightarrow> rat option" where
  "nearest_double p q =
     (if p = 0 then Some 0
      else
        let s = max (binade p q - 52) (- 1074);
            k = (if 0 \<le> s then round_half_even p (q * 2 ^ nat s)
                 else round_half_even (p * 2 ^ nat (- s)) q);
            v = of_nat k * pow2 s
        in if 2 ^ 1024 \<le> v then None else Some v)"

definition round_double :: "bool \<Rightarrow> magnitude \<Rightarrow> jsnum" where
  "round_double neg m =
     (case m of
        Infinite \<Rightarrow> if neg then NegInfinity else PosInfinity
      | Ratio p q \<Rightarrow>
          (case nearest_double p q of
             None \<Rightarrow> if neg then NegInfinity else PosInfinity
           | Some v \<Rightarrow> Finite (if neg then - v else v)))"

definition is_digit :: "code_unit \<Rightarrow> bool" where
  "is_digit c \<longleftrightarrow> 0x30 \<le> c \<and> c \<le> 0x39"

text \<open>The value of a digit of a literal in base up to 16, when it is one.\<close>

definition digit_value :: "code_unit \<Rightarrow> nat option" where
  "digit_value c =
     (if 0x30 \<le> c \<and> c \<le> 0x39 then Some (unat c - 0x30)
      else if 0x61 \<le> c \<and> c \<le> 0x66 then Some (unat c - 0x61 + 10)
      else if 0x41 \<le> c \<and> c \<le> 0x46 then Some (unat c - 0x41 + 10)
      else None)"

text \<open>
  All of \<open>ds\<close> read as digits of base \<open>b\<close>; \<open>None\<close> when \<open>ds\<close> is empty or one of
  its units is no digit of that base.
\<close>

fun digits_from :: "nat \<Rightarrow> nat \<Rightarrow> jsstring \<Rightarrow> nat option" where
  "digits_from b acc [] = Some acc"
| "digits_from b acc (c # cs) =
     (case digit_value c of
        None \<Rightarrow> None
      | Some d \<Rightarrow> if d < b then digits_from b (b * acc + d) cs else None)"

definition digits_in_base :: "nat \<Rightarrow> jsstring \<Rightarrow> nat option" where
  "digits_in_base b ds = (if ds = [] then None else digits_from b 0 ds)"

definition decimal_value :: "jsstring \<Rightarrow> nat" where
  "decimal_value ds = (case digits_from 10 0 ds of Some n \<Rightarrow> n | None \<Rightarrow> 0)"

text \<open>The value \<open>m * 10^e\<close> of the digits \<open>m\<close> with the decimal exponent \<open>e\<close>.\<close>

definition scale10 :: "nat \<Rightarrow> int \<Rightarrow> magnitude" where
  "scale10 m e = (if 0 \<le> e then Ratio (m * 10 ^ nat e) 1 else Ratio m (10 ^ nat (- e)))"

text \<open>
  ExponentPart, when one stands at the head of \<open>s\<close>: \<open>e\<close> or \<open>E\<close>, an optional sign
  and at least one digit. Otherwise nothing is consumed.
\<close>

definition exponent_part :: "jsstring \<Rightarrow> int \<times> jsstring" where
  "exponent_part s =
     (case s of
        [] \<Rightarrow> (0, s)
      | c # r \<Rightarrow>
          if c = 0x65 \<or> c = 0x45 then
            (let neg = (take 1 r = [0x2D]);
                 r' = (if take 1 r = [0x2D] \<or> take 1 r = [0x2B] then drop 1 r else r);
                 ds = takeWhile is_digit r'
             in if ds = [] then (0, s)
                else ((if neg then - int (decimal_value ds) else int (decimal_value ds)),
                      dropWhile is_digit r'))
          else (0, s))"

text \<open>
  The longest prefix of \<open>s\<close> that is a StrUnsignedDecimalLiteral (\<open>Infinity\<close>,
  \<open>digits . digits? exponent?\<close>, \<open>. digits exponent?\<close> or \<open>digits exponent?\<close>), with its
  mathematical value and the rest of the string.
\<close>

definition unsigned_decimal :: "jsstring \<Rightarrow> (magnitude \<times> jsstring) option" where
  "unsigned_decimal s =
     (if take 8 s = js ''Infinity'' then Some (Infinite, drop 8 s)
      else
        let ip = takeWhile is_digit s;
            r1 = dropWhile is_digit s;
            has_dot = (take 1 r1 = [0x2E]);
            fp = (if has_dot then takeWhile is_digit (drop 1 r1) else []);
            r2 = (if has_dot then dropWhile is_digit (drop 1 r1) else r1)
        in if ip = [] \<and> fp = [] then None
           else
             (case exponent_part r2 of
                (e, rest) \<Rightarrow>
                  Some (scale10 (decimal_value (ip @ fp)) (e - int (length fp)), rest)))"

text \<open>The longest prefix that is a StrDecimalLiteral: an optional sign and the above.\<close>

definition str_decimal_prefix :: "jsstring \<Rightarrow> (bool \<times> magnitude \<times> jsstring) option" where
  "str_decimal_prefix s =
     (if take 1 s = [0x2D] then map_option (Pair True) (unsigned_decimal (drop 1 s))
      else if take 1 s = [0x2B] then map_option (Pair False) (unsigned_decimal (drop 1 s))
      else map_option (Pair False) (unsigned_decimal s))"

text \<open>NonDecimalIntegerLiteral: \<open>0x\<close>, \<open>0o\<close> or \<open>0b\<close> (either case) and digits of the base.\<close>

definition non_decimal_literal :: "jsstring \<Rightarrow> nat option" where
  "non_decimal_literal s =
     (if take 2 s = js ''0x'' \<or> take 2 s = js ''0X'' then digits_in_base 16 (drop 2 s)
      else if take 2 s = js ''0o'' \<or> take 2 s = js ''0O'' then digits_in_base 8 (drop 2 s)
      else if take 2 s = js ''0b'' \<or> take 2 s = js ''0B'' then digits_in_base 2 (drop 2 s)
      else None)"

text \<open>
  \<open>ToNumber\<close> of a string (StringToNumber): white space is trimmed, the empty string is
  \<open>0\<close>, and the whole of the rest must be a numeric literal.
\<close>

definition StringToNumber :: "jsstring \<Rightarrow> jsnum" where
  "StringToNumber s =
     (let t = trim s in
      if t = [] then Finite 0
      else
        (case non_decimal_literal t of
           Some n \<Rightarrow> round_double False (Ratio n 1)
         | None \<Rightarrow>
             (case str_decimal_prefix t of
                Some (neg, m, rest) \<Rightarrow> if rest = [] then round_double neg m else NaN
              | None \<Rightarrow> NaN)))"

text \<open>
  \<open>parseFloat\<close> of a string: leading white space is skipped and the longest prefix that
  is a decimal literal is read; \<open>NaN\<close> when there is none.
\<close>

definition parseFloat_string :: "jsstring \<Rightarrow> jsnum" where
  "parseFloat_string s =
     (case str_decimal_prefix (trimStart s) of
        Some (neg, m, rest) \<Rightarrow> round_double neg m
      | None \<Rightarrow> NaN)"

text \<open>
  The salary of the draft is a string once the user has typed into the input, and the
  number of the record (\<open>employee.salary || ''\<close>) before that.
\<close>

datatype jsval = JStr jsstring | JNum jsnum

fun truthy :: "jsval \<Rightarrow> bool" where
  "truthy (JStr s) = (s \<noteq> [])"
| "truthy (JNum n) = (n \<noteq> NaN \<and> n \<noteq> Finite 0)"

fun ToNumber :: "jsval \<Rightarrow> jsnum" where
  "ToNumber (JStr s) = StringToNumber s"
| "ToNumber (JNum n) = n"

text \<open>\<open>x < 0\<close> on numbers: false for \<open>NaN\<close>.\<close>

fun below_zero :: "jsnum \<Rightarrow> bool" where
  "below_zero NaN = False"
| "below_zero PosInfinity = False"
| "below_zero NegInfinity = True"
| "below_zero (Finite r) = (r < 0)"

text \<open>
  \<open>parseFloat\<close> first converts its argument to a string. For a number, \<open>ToString\<close>
  prints the shortest decimal that reads back as the same double (\<open>Infinity\<close> and \<open>NaN\<close>
  print as themselves), so \<open>parseFloat\<close> returns the number.
\<close>

fun parseFloat :: "jsval \<Rightarrow> jsnum" where
  "parseFloat (JStr s) = parseFloat_string s"
| "parseFloat (JNum n) = n"





section \<open>Employee records and the service\<close>

text \<open>
  The fields of an employee object. The form's draft (\<open>formData\<close>) holds strings in the
  optional fields and a string or a number as salary; the object sent to the service
  (\<open>dataToSubmit\<close>) and the records the backend returns hold \<open>null\<close> (\<open>None\<close>) or a
  value there.
\<close>

record ('t, 's) employee_fields =
  employee_id :: jsstring
  first_name :: jsstring
  last_name :: jsstring
  email :: jsstring
  phone :: 't
  department :: 't
  position :: 't
  salary :: 's
  hire_date :: 't
  is_active :: bool

type_synonym formData = "(jsstring, jsval) employee_fields"
type_synonym payload = "(jsstring option, jsnum option) employee_fields"

text \<open>
  A persisted record: the fields and the key \<open>id\<close> the backend assigned (written
  \<open>id'\<close>, as \<open>id\<close> is the identity function).
\<close>

record employee = "(jsstring option, jsnum option) employee_fields" +
  id' :: nat

datatype qvalue = QStr jsstring | QBool bool

type_synonym params = "(string \<times> qvalue) list"

record list_response =
  data_employees :: "employee list option"
  data_total :: "nat option"

text \<open>
  A call of the service fails with the error axios raises: the backend answered with an
  error status (and perhaps a \<open>detail\<close> message in the body), or no answer came.
\<close>

datatype error = RemoteError nat "jsstring option" | TransportError

datatype call =
    GetAllEmployees params
  | CreateEmployee payload
  | UpdateEmployee nat payload
  | DeleteEmployee nat
  | DeactivateEmployee nat
  | ActivateEmployee nat
  | SearchEmployees jsstring

text \<open>
  What each method of \<open>employeeService\<close> sends: the method, the URL, the query
  parameters and the body. Keys are integers (below \<open>10^21\<close>, where the template literal
  prints them in plain decimal).
\<close>

datatype http_method = GET | POST | PUT | DELETE | PATCH

record request =
  http_method :: http_method
  url :: jsstring
  query :: params
  body :: "payload option"

fun request_of :: "call \<Rightarrow> request" where
  "request_of (GetAllEmployees ps) =
     \<lparr>http_method = GET, url = js ''/api/employees/'', query = ps, body = None\<rparr>"
| "request_of (CreateEmployee employeeData) =
     \<lparr>http_method = POST, url = js ''/api/employees/'', query = [], body = Some employeeData\<rparr>"
| "request_of (UpdateEmployee i employeeData) =
     \<lparr>http_method = PUT, url = js ''/api/employees/'' @ decimal_digits i, query = [],
      body = Some employeeData\<rparr>"
| "request_of (DeleteEmployee i) =
     \<lparr>http_method = DELETE, url = js ''/api/employees/'' @ decimal_digits i, query = [],
      body = None\<rparr>"
| "request_of (DeactivateEmployee i) =
     \<lparr>http_method = PATCH, url = js ''/api/employees/'' @ decimal_digits i @ js ''/deactivate'',
      query = [], body = None\<rparr>"
| "request_of (ActivateEmployee i) =
     \<lparr>http_method = PATCH, url = js ''/api/employees/'' @ decimal_digits i @ js ''/activate'',
      query = [], body = None\<rparr>"
| "request_of (SearchEmployees searchTerm) =
     \<lparr>http_method = GET, url = js ''/api/employees/search'',
      query = [(''q'', QStr searchTerm)], body = None\<rparr>"

text \<open>
  The backend behind the service, as a component sees it: each method answers with the
  data of its REST contract or fails. A handler is verified for every such backend.
\<close>

record gateway =
  getAllEmployees :: "params \<Rightarrow> error + list_response"
  createEmployee :: "payload \<Rightarrow> error + employee"
  updateEmployee :: "nat \<Rightarrow> payload \<Rightarrow> error + employee"
  deleteEmployee :: "nat \<Rightarrow> error + unit"
  deactivateEmployee :: "nat \<Rightarrow> error + employee"
  activateEmployee :: "nat \<Rightarrow> error + employee"
  searchEmployees :: "jsstring \<Rightarrow> error + employee list"

section \<open>Effects of a handler\<close>

text \<open>
  What a handler does besides changing its component's state is recorded, in order, in
  a trace: calls of the service, toasts, the console, the confirmation dialog and the
  callbacks of the parent.
\<close>

datatype tone = TSuccess | TError | TInfo

datatype event =
    Call call
  | Toast tone jsstring
  | ConsoleError jsstring
  | Confirm jsstring
  | OnSuccess
  | OnClose
  | OnSearchResults "employee list option"
  | UnhandledRejection error

record effects =
  trace :: "event list"

text \<open>A statement completes normally or throws; the state reached is kept either way.\<close>

datatype 's completion = Normal 's | Throw error 's

definition emit :: "event \<Rightarrow> 'a effects_scheme \<Rightarrow> 'a effects_scheme" where
  "emit ev w = w\<lparr>trace := trace w @ [ev]\<rparr>"

definition toast :: "tone \<Rightarrow> jsstring \<Rightarrow> 'a effects_scheme \<Rightarrow> 'a effects_scheme" where
  "toast t msg = emit (Toast t msg)"

definition console_error :: "string \<Rightarrow> 'a effects_scheme \<Rightarrow> 'a effects_scheme" where
  "console_error msg = emit (ConsoleError (js msg))"

text \<open>Statements that cannot throw, run in the order written.\<close>

definition statements :: "('s \<Rightarrow> 's) list \<Rightarrow> 's \<Rightarrow> 's" where
  "statements fs w = fold (\<lambda>f. f) fs w"

text \<open>
  \<open>await employeeService.m(...)\<close>: the call is made; a failure is thrown at the
  \<open>await\<close>, and otherwise the rest of the block runs with the answer.
\<close>

definition await :: "call \<Rightarrow> error + 'r \<Rightarrow> ('r \<Rightarrow> 'a effects_scheme \<Rightarrow> 'a effects_scheme completion)
    \<Rightarrow> 'a effects_scheme \<Rightarrow> 'a effects_scheme completion" where
  "await c answer rest w =
     (case answer of
        Inl e \<Rightarrow> Throw e (emit (Call c) w)
      | Inr r \<Rightarrow> rest r (emit (Call c) w))"

definition try_catch :: "('s \<Rightarrow> 's completion) \<Rightarrow> (error \<Rightarrow> 's \<Rightarrow> 's completion) \<Rightarrow> 's \<Rightarrow> 's completion" where
  "try_catch block handler w =
     (case block w of
        Normal w1 \<Rightarrow> Normal w1
      | Throw e w1 \<Rightarrow> handler e w1)"

definition try_catch_finally :: "('s \<Rightarrow> 's completion) \<Rightarrow> (error \<Rightarrow> 's \<Rightarrow> 's completion) \<Rightarrow> ('s \<Rightarrow> 's)
    \<Rightarrow> 's \<Rightarrow> 's completion" where
  "try_catch_finally block handler finalizer w =
     (case try_catch block handler w of
        Normal w1 \<Rightarrow> Normal (finalizer w1)
      | Throw e w1 \<Rightarrow> Throw e (finalizer w1))"

text \<open>
  An async function called without \<open>await\<close>: a rejection of its promise is not thrown
  into the caller's \<open>try\<close>.
\<close>

definition not_awaited :: "('a effects_scheme \<Rightarrow> 'a effects_scheme completion)
    \<Rightarrow> 'a effects_scheme \<Rightarrow> 'a effects_scheme completion" where
  "not_awaited f w =
     (case f w of
        Normal w1 \<Rightarrow> Normal w1
      | Throw e w1 \<Rightarrow> Normal (emit (UnhandledRejection e) w1))"

text \<open>The state a completion has reached, and the error it has thrown.\<close>

definition state_of :: "'s completion \<Rightarrow> 's" where
  "state_of c = (case c of Normal w \<Rightarrow> w | Throw e w \<Rightarrow> w)"

definition thrown :: "'s completion \<Rightarrow> error option" where
  "thrown c = (case c of Normal w \<Rightarrow> None | Throw e w \<Rightarrow> Some e)"

text \<open>The calls of a trace, and its toasts.\<close>

fun calls_of :: "event list \<Rightarrow> call list" where
  "calls_of [] = []"
| "calls_of (Call c # evs) = c # calls_of evs"
| "calls_of (ev # evs) = calls_of evs"

fun toasts_of :: "event list \<Rightarrow> (tone \<times> jsstring) list" where
  "toasts_of [] = []"
| "toasts_of (Toast t msg # evs) = (t, msg) # toasts_of evs"
| "toasts_of (ev # evs) = toasts_of evs"

section \<open>The employee form\<close>

record busy = effects +
  loading :: bool

record form_state = busy +
  formData :: formData
  errors :: "(string \<times> jsstring) list"

text \<open>The draft of a new form, and the draft the effect seeds from the record edited.\<close>

definition initial_formData :: formData where
  "initial_formData =
     \<lparr>employee_id = [], first_name = [], last_name = [], email = [], phone = [],
      department = [], position = [], salary = JStr [], hire_date = [], is_active = True\<rparr>"

definition or_empty :: "jsstring option \<Rightarrow> jsstring" where
  "or_empty v = (case v of Some s \<Rightarrow> s | None \<Rightarrow> [])"

definition seed_formData :: "employee \<Rightarrow> formData" where
  "seed_formData e =
     \<lparr>employee_id = employee_id e, first_name = first_name e, last_name = last_name e,
      email = email e, phone = or_empty (phone e), department = or_empty (department e),
      position = or_empty (position e),
      salary = (case salary e of
                  Some n \<Rightarrow> if truthy (JNum n) then JNum n else JStr []
                | None \<Rightarrow> JStr []),
      hire_date = or_empty (hire_date e), is_active = is_active e\<rparr>"

text \<open>The input of \<open>employee_id\<close> carries \<open>disabled={employee !== null}\<close>.\<close>

definition employee_id_disabled :: "employee option \<Rightarrow> bool" where
  "employee_id_disabled employee \<longleftrightarrow> employee \<noteq> None"

text \<open>\<open>validateForm\<close>: the object \<open>newErrors\<close> it builds, with its keys in order.\<close>

definition newErrors :: "formData \<Rightarrow> (string \<times> jsstring) list" where
  "newErrors d =
     (if trim (employee_id d) = [] then [(''employee_id'', js ''Employee ID is required'')] else []) @
     (if trim (first_name d) = [] then [(''first_name'', js ''First name is required'')] else []) @
     (if trim (last_name d) = [] then [(''last_name'', js ''Last name is required'')] else []) @
     (if trim (email d) = [] then [(''email'', js ''Email is required'')]
      else if \<not> regex_test email_pattern (email d) then [(''email'', js ''Email is invalid'')]
      else []) @
     (if truthy (salary d) \<and> below_zero (ToNumber (salary d))
      then [(''salary'', js ''Salary must be positive'')] else [])"

definition validateForm :: "form_state \<Rightarrow> bool \<times> form_state" where
  "validateForm w = (newErrors (formData w) = [], w\<lparr>errors := newErrors (formData w)\<rparr>)"

text \<open>\<open>x || null\<close> on a string.\<close>

definition or_null :: "jsstring \<Rightarrow> jsstring option" where
  "or_null s = (if s \<noteq> [] then Some s else None)"

definition dataToSubmit :: "formData \<Rightarrow> payload" where
  "dataToSubmit d =
     \<lparr>employee_id = employee_id d, first_name = first_name d, last_name = last_name d,
      email = email d, phone = or_null (phone d), department = or_null (department d),
      position = or_null (position d),
      salary = (if truthy (salary d) then Some (parseFloat (salary d)) else None),
      hire_date = or_null (hire_date d), is_active = is_active d\<rparr>"

text \<open>
  \<open>error.response?.data?.detail || 'Failed to save employee'\<close>: the message of the
  backend when it sent one that is not empty.
\<close>

definition errorMessage :: "error \<Rightarrow> jsstring" where
  "errorMessage e =
     (case e of
        RemoteError status (Some detail) \<Rightarrow>
          if detail \<noteq> [] then detail else js ''Failed to save employee''
      | RemoteError status None \<Rightarrow> js ''Failed to save employee''
      | TransportError \<Rightarrow> js ''Failed to save employee'')"

text \<open>
  \<open>handleSubmit\<close>, after \<open>e.preventDefault()\<close>: the draft is validated, and a valid draft
  is sent inside \<open>try\<close>, with \<open>loading\<close> set around the call. Only the empty string is
  falsy among strings, so \<open>x || null\<close> and \<open>x ? ... : null\<close> test for it.
\<close>

definition handleSubmit :: "gateway \<Rightarrow> employee option \<Rightarrow> form_state \<Rightarrow> form_state completion" where
  "handleSubmit gw employee w =
     (case validateForm w of
        (False, w0) \<Rightarrow> Normal w0
      | (True, w0) \<Rightarrow>
          try_catch_finally
            (\<lambda>w1.
               (case employee of
                  Some e \<Rightarrow>
                    await (UpdateEmployee (id' e) (dataToSubmit (formData w1)))
                      (updateEmployee gw (id' e) (dataToSubmit (formData w1)))
                      (\<lambda>_ w2. Normal (statements
                         [toast TSuccess (js ''Employee updated successfully''),
                          emit OnSuccess, emit OnClose] w2)) w1
                | None \<Rightarrow>
                    await (CreateEmployee (dataToSubmit (formData w1)))
                      (createEmployee gw (dataToSubmit (formData w1)))
                      (\<lambda>_ w2. Normal (statements
                         [toast TSuccess (js ''Employee created successfully''),
                          emit OnSuccess, emit OnClose] w2)) w1))
            (\<lambda>error w1. Normal (statements
               [console_error ''Error saving employee:'', toast TError (errorMessage error)] w1))
            (\<lambda>w1. w1\<lparr>loading := False\<rparr>)
            (w0\<lparr>loading := True\<rparr>))"

section \<open>The employee list\<close>

text \<open>The two selects of the list hold strings: \<open>''\<close> when no filter is chosen.\<close>

record filters =
  filter_department :: jsstring
  filter_is_active :: jsstring

record list_state = busy +
  employees :: "employee list"
  filters :: filters

definition fetch_params :: "filters \<Rightarrow> params" where
  "fetch_params f =
     (if filter_department f \<noteq> [] then [(''department'', QStr (filter_department f))] else []) @
     (if filter_is_active f \<noteq> [] then [(''is_active'', QBool (filter_is_active f = js ''true''))]
      else [])"

definition fetchEmployees :: "gateway \<Rightarrow> list_state \<Rightarrow> list_state completion" where
  "fetchEmployees gw =
     try_catch_finally
       (\<lambda>w.
          await (GetAllEmployees (fetch_params (filters w)))
            (getAllEmployees gw (fetch_params (filters w)))
            (\<lambda>data w1. Normal (w1\<lparr>employees :=
               (case data_employees data of Some es \<Rightarrow> es | None \<Rightarrow> [])\<rparr>))
            (w\<lparr>loading := True\<rparr>))
       (\<lambda>error w. Normal (statements
          [console_error ''Error fetching employees:'',
           toast TError (js ''Failed to fetch employees'')] w))
       (\<lambda>w. w\<lparr>loading := False\<rparr>)"

text \<open>\<open>window.confirm\<close> shows the question; the user's answer is a parameter.\<close>

definition handleDelete :: "gateway \<Rightarrow> (jsstring \<Rightarrow> bool) \<Rightarrow> nat \<Rightarrow> jsstring \<Rightarrow> list_state
    \<Rightarrow> list_state completion" where
  "handleDelete gw window_confirm i employeeName w =
     (let question = js ''Are you sure you want to delete '' @ employeeName @ js ''?'' in
      if window_confirm question then
        try_catch
          (\<lambda>w1.
             await (DeleteEmployee i) (deleteEmployee gw i)
               (\<lambda>_ w2. not_awaited (fetchEmployees gw)
                  (toast TSuccess (js ''Employee deleted successfully'') w2)) w1)
          (\<lambda>error w1. Normal (statements
             [console_error ''Error deleting employee:'',
              toast TError (js ''Failed to delete employee'')] w1))
          (emit (Confirm question) w)
      else Normal (emit (Confirm question) w))"

definition handleToggleStatus :: "gateway \<Rightarrow> nat \<Rightarrow> bool \<Rightarrow> jsstring \<Rightarrow> list_state
    \<Rightarrow> list_state completion" where
  "handleToggleStatus gw i currentStatus employeeName =
     try_catch
       (\<lambda>w.
          if currentStatus then
            await (DeactivateEmployee i) (deactivateEmployee gw i)
              (\<lambda>_ w1. not_awaited (fetchEmployees gw)
                 (toast TSuccess (employeeName @ js '' deactivated'') w1)) w
          else
            await (ActivateEmployee i) (activateEmployee gw i)
              (\<lambda>_ w1. not_awaited (fetchEmployees gw)
                 (toast TSuccess (employeeName @ js '' activated'') w1)) w)
       (\<lambda>error w. Normal (statements
          [console_error ''Error toggling status:'',
           toast TError (js ''Failed to update status'')] w))"

section \<open>The search bar\<close>

record search_state = busy +
  searchTerm :: jsstring

definition handleSearch :: "gateway \<Rightarrow> search_state \<Rightarrow> search_state completion" where
  "handleSearch gw w =
     (if trim (searchTerm w) = [] then
        Normal (toast TInfo (js ''Please enter a search term'') w)
      else
        try_catch_finally
          (\<lambda>w1.
             await (SearchEmployees (searchTerm w1)) (searchEmployees gw (searchTerm w1))
               (\<lambda>results w2. Normal (statements
                  [emit (OnSearchResults (Some results)),
                   (if length results = 0
                    then toast TInfo (js ''No employees found matching your search'')
                    else toast TSuccess
                           (js ''Found '' @ decimal_digits (length results) @ js '' employee(s)''))]
                  w2)) w1)
          (\<lambda>error w1. Normal (statements
             [console_error ''Error searching employees:'',
              toast TError (js ''Failed to search employees'')] w1))
          (\<lambda>w1. w1\<lparr>loading := False\<rparr>)
          (w\<lparr>loading := True\<rparr>))"

definition handleClear :: "search_state \<Rightarrow> search_state" where
  "handleClear w = emit (OnSearchResults None) (w\<lparr>searchTerm := []\<rparr>)"

section \<open>The dashboard\<close>

record stats =
  total :: nat
  active :: nat
  inactive :: nat

record dashboard_state = effects +
  showForm :: bool
  selectedEmployee :: "employee option"
  refreshKey :: nat
  stats :: stats
  searchResults :: "employee list option"

text \<open>\<open>data.total || 0\<close>.\<close>

definition or_zero :: "nat option \<Rightarrow> nat" where
  "or_zero v = (case v of Some n \<Rightarrow> n | None \<Rightarrow> 0)"

definition fetchStats :: "gateway \<Rightarrow> dashboard_state \<Rightarrow> dashboard_state completion" where
  "fetchStats gw =
     try_catch
       (\<lambda>w.
          await (GetAllEmployees []) (getAllEmployees gw [])
            (\<lambda>allData.
               await (GetAllEmployees [(''is_active'', QBool True)])
                 (getAllEmployees gw [(''is_active'', QBool True)])
                 (\<lambda>activeData.
                    await (GetAllEmployees [(''is_active'', QBool False)])
                      (getAllEmployees gw [(''is_active'', QBool False)])
                      (\<lambda>inactiveData w1. Normal (w1\<lparr>stats :=
                         \<lparr>total = or_zero (data_total allData),
                          active = or_zero (data_total activeData),
                          inactive = or_zero (data_total inactiveData)\<rparr>\<rparr>)))) w)
       (\<lambda>error w. Normal (console_error ''Error fetching stats:'' w))"

definition handleAddEmployee :: "dashboard_state \<Rightarrow> dashboard_state" where
  "handleAddEmployee w = w\<lparr>selectedEmployee := None, showForm := True\<rparr>"


definition handleFormSuccess :: "dashboard_state \<Rightarrow> dashboard_state" where
  "handleFormSuccess w = w\<lparr>refreshKey := refreshKey w + 1\<rparr>"

definition handleCloseForm :: "dashboard_state \<Rightarrow> dashboard_state" where
  "handleCloseForm w = w\<lparr>showForm := False, selectedEmployee := None\<rparr>"

definition handleSearchResults :: "employee list option \<Rightarrow> dashboard_state \<Rightarrow> dashboard_state" where
  "handleSearchResults results w = w\<lparr>searchResults := results\<rparr>"

text \<open>
  The props the dashboard passes down: \<open>onSuccess={handleFormSuccess}\<close>,
  \<open>onClose={handleCloseForm}\<close> and \<open>onSearchResults={handleSearchResults}\<close>.
\<close>

fun callback :: "event \<Rightarrow> dashboard_state \<Rightarrow> dashboard_state" where
  "callback OnSuccess w = handleFormSuccess w"
| "callback OnClose w = handleCloseForm w"
| "callback (OnSearchResults results) w = handleSearchResults results w"
| "callback ev w = w"





section \<open>Blank strings\<close>

text \<open>A string that is empty or holds white space only.\<close>

definition whitespace_only :: "jsstring \<Rightarrow> bool" where
  "whitespace_only s \<longleftrightarrow> (\<forall>c\<in>set s. js_whitespace c)"

section \<open>The strings a pattern matches\<close>

text \<open>
  The usual meaning of a pattern as a set of strings. It is not used to compute; the
  matcher above is proved to decide it, which says what \<open>regex_test\<close> answers.
\<close>

definition conc :: "jsstring set \<Rightarrow> jsstring set \<Rightarrow> jsstring set" where
  "conc A B = {u @ v |u v. u \<in> A \<and> v \<in> B}"

inductive_set star :: "jsstring set \<Rightarrow> jsstring set" for A :: "jsstring set" where
  star_empty: "[] \<in> star A"
| star_more: "u \<in> A \<Longrightarrow> v \<in> star A \<Longrightarrow> u @ v \<in> star A"

fun lang :: "regex \<Rightarrow> jsstring set" where
  "lang Fail = {}"
| "lang Eps = {[]}"
| "lang (Class p) = {[c] |c. p c}"
| "lang (Cat r s) = conc (lang r) (lang s)"
| "lang (Alt r s) = lang r \<union> lang s"
| "lang (Rep r) = star (lang r)"

text \<open>What \<open>\S+\<close> matches: one or more units, none of them white space.\<close>

definition nonspace_run :: "jsstring \<Rightarrow> bool" where
  "nonspace_run a \<longleftrightarrow> a \<noteq> [] \<and> (\<forall>x\<in>set a. \<not> js_whitespace x)"

section \<open>Sample data\<close>

text \<open>
  A draft with the required fields only, a persisted record, a form and a list as first
  rendered, and two backends: one that accepts every call and one that fails every call.
\<close>

definition ann_lee :: formData where
  "ann_lee = initial_formData\<lparr>employee_id := js ''E100'', first_name := js ''Ann'',
     last_name := js ''Lee'', email := js ''ann@x.com''\<rparr>"

definition stored :: "nat \<Rightarrow> payload \<Rightarrow> employee" where
  "stored i p =
     \<lparr>employee_id = employee_id p, first_name = first_name p, last_name = last_name p,
      email = email p, phone = phone p, department = department p, position = position p,
      salary = salary p, hire_date = hire_date p, is_active = is_active p, id' = i\<rparr>"

definition jane_doe :: employee where
  "jane_doe =
     \<lparr>employee_id = js ''E007'', first_name = js ''Jane'', last_name = js ''Doe'',
      email = js ''jane@x.com'', phone = None, department = Some (js ''Sales''),
      position = None, salary = Some (Finite 50000), hire_date = None, is_active = True,
      id' = 7\<rparr>"

definition form_of :: "formData \<Rightarrow> form_state" where
  "form_of d = \<lparr>trace = [], loading = False, formData = d, errors = []\<rparr>"

definition list_of :: "employee list \<Rightarrow> list_state" where
  "list_of es =
     \<lparr>trace = [], loading = False, employees = es,
      filters = \<lparr>filter_department = [], filter_is_active = []\<rparr>\<rparr>"

definition search_of :: "jsstring \<Rightarrow> search_state" where
  "search_of q = \<lparr>trace = [], loading = False, searchTerm = q\<rparr>"

definition dashboard_of :: "stats \<Rightarrow> dashboard_state" where
  "dashboard_of st =
     \<lparr>trace = [], showForm = True, selectedEmployee = None, refreshKey = 0, stats = st,
      searchResults = None\<rparr>"

definition accepting_backend :: "employee list \<Rightarrow> gateway" where
  "accepting_backend db =
     \<lparr>getAllEmployees = (\<lambda>ps. Inr \<lparr>data_employees = Some db, data_total = Some (length db)\<rparr>),
      createEmployee = (\<lambda>p. Inr (stored (Suc (length db)) p)),
      updateEmployee = (\<lambda>i p. Inr (stored i p)),
      deleteEmployee = (\<lambda>i. Inr ()),
      deactivateEmployee = (\<lambda>i. Inr (jane_doe\<lparr>is_active := False, id' := i\<rparr>)),
      activateEmployee = (\<lambda>i. Inr (jane_doe\<lparr>is_active := True, id' := i\<rparr>)),
      searchEmployees = (\<lambda>q. Inr db)\<rparr>"

definition failing_backend :: "error \<Rightarrow> gateway" where
  "failing_backend e =
     \<lparr>getAllEmployees = (\<lambda>ps. Inl e),
      createEmployee = (\<lambda>p. Inl e),
      updateEmployee = (\<lambda>i p. Inl e),
      deleteEmployee = (\<lambda>i. Inl e),
      deactivateEmployee = (\<lambda>i. Inl e),
      activateEmployee = (\<lambda>i. Inl e),
      searchEmployees = (\<lambda>q. Inl e)\<rparr>"

section \<open>White space and trimming\<close>

lemma dropWhile_all_iff: "(\<forall>x\<in>set (dropWhile P xs). P x) \<longleftrightarrow> (\<forall>x\<in>set xs. P x)"
  by (induction xs) auto

lemma trim_empty_iff: "trim s = [] \<longleftrightarrow> (\<forall>c\<in>set s. js_whitespace c)"
  by (simp add: trim_def dropWhile_all_iff)

section \<open>Reading and printing numbers\<close>

lemma round_double_number: "round_double neg m \<noteq> NaN"
  by (cases m) (simp_all add: round_double_def split: option.splits)

lemma parseFloat_string_NaN:
  "parseFloat_string s = NaN \<longleftrightarrow> str_decimal_prefix (trimStart s) = None"
  by (cases "str_decimal_prefix (trimStart s)")
    (auto simp: parseFloat_string_def round_double_number)

subsection \<open>Printing a length\<close>

text \<open>The digits printed for \<open>n\<close> read back as \<open>n\<close>, and do not begin with a zero.\<close>

lemma digits_from_snoc:
  "digits_from b acc (ds @ [c]) =
     (case digits_from b acc ds of
        None \<Rightarrow> None
      | Some a \<Rightarrow>
          (case digit_value c of
             None \<Rightarrow> None
           | Some d \<Rightarrow> if d < b then Some (b * a + d) else None))"
  by (induction ds arbitrary: acc) (simp_all split: option.splits)

lemma digit_value_decimal:
  assumes "d < 10"
  shows "digit_value (of_nat (48 + d)) = Some d"
proof -
  from assms have "d = 0 \<or> d = 1 \<or> d = 2 \<or> d = 3 \<or> d = 4 \<or> d = 5 \<or> d = 6 \<or> d = 7 \<or>
      d = 8 \<or> d = 9"
    by arith
  then show ?thesis
    by (elim disjE) (simp_all add: digit_value_def)
qed

lemma decimal_digits_not_empty: "decimal_digits n \<noteq> []"
  by (subst decimal_digits.simps) simp

lemma digits_from_decimal_digits: "digits_from 10 0 (decimal_digits n) = Some n"
proof (induction n rule: decimal_digits.induct)
  case (1 n)
  show ?case
  proof (cases "n < 10")
    case True
    then show ?thesis
      by (subst decimal_digits.simps)
        (simp add: digit_value_decimal del: decimal_digits.simps of_nat_add)
  next
    case False
    with 1 have "digits_from 10 0 (decimal_digits (n div 10)) = Some (n div 10)"
      by simp
    with False show ?thesis
      by (subst decimal_digits.simps)
        (simp add: digits_from_snoc digit_value_decimal del: decimal_digits.simps of_nat_add)
  qed
qed

lemma decimal_digits_read_back: "digits_in_base 10 (decimal_digits n) = Some n"
  by (simp add: digits_in_base_def decimal_digits_not_empty digits_from_decimal_digits
      del: decimal_digits.simps)

lemma decimal_digits_no_leading_zero:
  "0 < n \<Longrightarrow> hd (decimal_digits n) \<noteq> 0x30"
proof (induction n rule: decimal_digits.induct)
  case (1 n)
  show ?case
  proof (cases "n < 10")
    case True
    then have "digit_value (of_nat (48 + n)) = Some n"
      by (rule digit_value_decimal)
    moreover have "digit_value 0x30 = Some 0"
      by (simp add: digit_value_def)
    ultimately have "(of_nat (48 + n) :: code_unit) \<noteq> 0x30"
      using "1.prems" by auto
    with True show ?thesis
      by (subst decimal_digits.simps) (simp del: decimal_digits.simps of_nat_add)
  next
    case False
    with 1 have "hd (decimal_digits (n div 10)) \<noteq> 0x30"
      by simp
    with False show ?thesis
      by (subst decimal_digits.simps)
        (simp add: decimal_digits_not_empty del: decimal_digits.simps)
  qed
qed

subsection \<open>The values of a number input\<close>

























section \<open>The matcher decides the language\<close>

lemma nullable_lang: "nullable r \<longleftrightarrow> [] \<in> lang r"
  by (induction r) (auto simp: conc_def star_empty)

lemma conc_cons:
  "c # w \<in> conc A B \<longleftrightarrow>
     (\<exists>u v. w = u @ v \<and> c # u \<in> A \<and> v \<in> B) \<or> ([] \<in> A \<and> c # w \<in> B)"
  unfolding conc_def
  by (auto simp: Cons_eq_append_conv) 

lemma star_cons_split:
  assumes "x \<in> star A" and "x = c # w"
  shows "\<exists>u v. w = u @ v \<and> c # u \<in> A \<and> v \<in> star A"
  using assms
proof (induction arbitrary: w rule: star.induct)
  case star_empty
  then show ?case by simp
next
  case (star_more u v)
  show ?case
  proof (cases u)
    case Nil
    with star_more show ?thesis by simp
  next
    case (Cons a u')
    with star_more.prems have "a = c" and "w = u' @ v" by simp_all
    with Cons star_more.hyps show ?thesis by blast
  qed
qed

lemma star_cons:
  "c # w \<in> star A \<longleftrightarrow> (\<exists>u v. w = u @ v \<and> c # u \<in> A \<and> v \<in> star A)"
proof
  assume "c # w \<in> star A"
  then show "\<exists>u v. w = u @ v \<and> c # u \<in> A \<and> v \<in> star A"
    by (rule star_cons_split) simp
next
  assume "\<exists>u v. w = u @ v \<and> c # u \<in> A \<and> v \<in> star A"
  then obtain u v where "w = u @ v" "c # u \<in> A" "v \<in> star A" by blast
  then show "c # w \<in> star A"
    using star_more [of "c # u" A v] by simp
qed

lemma lang_deriv: "w \<in> lang (deriv c r) \<longleftrightarrow> c # w \<in> lang r"
proof (induction r arbitrary: w)
  case (Cat r1 r2)
  then show ?case
    by (auto simp: conc_cons nullable_lang) (auto simp: conc_def)
next
  case (Rep r)
  then show ?case
    by (auto simp: star_cons conc_def)
qed auto

lemma matches_lang: "matches r s \<longleftrightarrow> s \<in> lang r"
  unfolding matches_def
  by (induction s arbitrary: r) (simp_all add: nullable_lang lang_deriv)


lemma star_class: "a \<in> star {[c] |c. p c} \<longleftrightarrow> (\<forall>x\<in>set a. p x)"
proof (induction a)
  case Nil
  show ?case by (simp add: star_empty)
next
  case (Cons x a)
  have "x # a \<in> star {[c] |c. p c} \<longleftrightarrow> p x \<and> a \<in> star {[c] |c. p c}"
    by (auto simp: star_cons)
  with Cons show ?case by simp
qed

lemma lang_any: "s \<in> lang (Rep AnyUnit)"
  using star_class [of s "\<lambda>x. True"] by (simp add: AnyUnit_def)

lemma conc_class: "m \<in> conc {[c] |c. p c} B \<longleftrightarrow> (\<exists>x v. m = x # v \<and> p x \<and> v \<in> B)"
proof
  assume "m \<in> conc {[c] |c. p c} B"
  then show "\<exists>x v. m = x # v \<and> p x \<and> v \<in> B"
    by (auto simp: conc_def)
next
  assume "\<exists>x v. m = x # v \<and> p x \<and> v \<in> B"
  then obtain x v where "m = [x] @ v" "p x" "v \<in> B" by auto
  then show "m \<in> conc {[c] |c. p c} B"
    unfolding conc_def by blast
qed

lemma lang_plus_nonspace: "a \<in> lang (Plus NonSpace) \<longleftrightarrow> nonspace_run a"
proof -
  have "a \<in> lang (Plus NonSpace) \<longleftrightarrow>
          (\<exists>x v. a = x # v \<and> \<not> js_whitespace x \<and> (\<forall>y\<in>set v. \<not> js_whitespace y))"
    using conc_class [of a "\<lambda>x. \<not> js_whitespace x" "star {[c] |c. \<not> js_whitespace c}"]
    by (simp add: Plus_def NonSpace_def star_class)
  also have "\<dots> \<longleftrightarrow> nonspace_run a"
    by (cases a) (auto simp: nonspace_run_def)
  finally show ?thesis .
qed

lemma lang_lit: "m \<in> lang (Lit c) \<longleftrightarrow> m = [c]"
  by (auto simp: Lit_def)

lemma regex_test_lang: "regex_test r s \<longleftrightarrow> (\<exists>p m q. s = p @ m @ q \<and> m \<in> lang r)"
  unfolding regex_test_def matches_lang
  by (simp add: conc_def lang_any del: lang.simps(6)) blast

lemma lang_email_pattern:
  "m \<in> lang email_pattern \<longleftrightarrow>
     (\<exists>a b c. m = a @ [0x40] @ b @ [0x2E] @ c \<and> nonspace_run a \<and> nonspace_run b \<and> nonspace_run c)"
  unfolding email_pattern_def
  by (simp add: conc_def lang_plus_nonspace lang_lit del: lang.simps(6)) blast

lemma email_pattern_test:
  "regex_test email_pattern s \<longleftrightarrow>
     (\<exists>p a b c q. s = p @ a @ [0x40] @ b @ [0x2E] @ c @ q \<and>
        nonspace_run a \<and> nonspace_run b \<and> nonspace_run c)"
proof
  assume "regex_test email_pattern s"
  then obtain p a b c q where "s = p @ (a @ [0x40] @ b @ [0x2E] @ c) @ q"
    and "nonspace_run a" "nonspace_run b" "nonspace_run c"
    unfolding regex_test_lang lang_email_pattern by blast
  then have "s = p @ a @ [0x40] @ b @ [0x2E] @ c @ q \<and>
      nonspace_run a \<and> nonspace_run b \<and> nonspace_run c"
    by simp
  then show "\<exists>p a b c q. s = p @ a @ [0x40] @ b @ [0x2E] @ c @ q \<and>
      nonspace_run a \<and> nonspace_run b \<and> nonspace_run c"
    by blast
next
  assume "\<exists>p a b c q. s = p @ a @ [0x40] @ b @ [0x2E] @ c @ q \<and>
      nonspace_run a \<and> nonspace_run b \<and> nonspace_run c"
  then obtain p a b c q where "s = p @ a @ [0x40] @ b @ [0x2E] @ c @ q"
    and runs: "nonspace_run a" "nonspace_run b" "nonspace_run c"
    by blast
  then have "s = p @ (a @ [0x40] @ b @ [0x2E] @ c) @ q"
    by simp
  with runs show "regex_test email_pattern s"
    unfolding regex_test_lang lang_email_pattern by blast
qed

section \<open>Running the handlers\<close>

lemmas effect_defs = try_catch_finally_def try_catch_def await_def statements_def toast_def
  emit_def console_error_def not_awaited_def

lemma calls_of_append: "calls_of (xs @ ys) = calls_of xs @ calls_of ys"
  by (induction xs rule: calls_of.induct) simp_all

lemma toasts_of_append: "toasts_of (xs @ ys) = toasts_of xs @ toasts_of ys"
  by (induction xs rule: toasts_of.induct) simp_all

lemma newErrors_employee_id:
  "map_of (newErrors d) ''employee_id'' =
     (if trim (employee_id d) = [] then Some (js ''Employee ID is required'') else None)"
  by (simp add: newErrors_def)

lemma newErrors_first_name:
  "map_of (newErrors d) ''first_name'' =
     (if trim (first_name d) = [] then Some (js ''First name is required'') else None)"
  by (simp add: newErrors_def)

lemma newErrors_last_name:
  "map_of (newErrors d) ''last_name'' =
     (if trim (last_name d) = [] then Some (js ''Last name is required'') else None)"
  by (simp add: newErrors_def)

lemma newErrors_email:
  "map_of (newErrors d) ''email'' =
     (if trim (email d) = [] then Some (js ''Email is required'')
      else if \<not> regex_test email_pattern (email d) then Some (js ''Email is invalid'')
      else None)"
  by (simp add: newErrors_def)

lemma newErrors_salary:
  "map_of (newErrors d) ''salary'' =
     (if truthy (salary d) \<and> below_zero (ToNumber (salary d))
      then Some (js ''Salary must be positive'') else None)"
  by (simp add: newErrors_def)

lemma newErrors_keys:
  "fst ` set (newErrors d) \<subseteq> {''employee_id'', ''first_name'', ''last_name'', ''email'', ''salary''}"
  by (auto simp: newErrors_def split: if_splits)



subsection \<open>The form\<close>

lemma handleSubmit_invalid:
  "newErrors (formData w) \<noteq> [] \<Longrightarrow>
   handleSubmit gw employee w = Normal (w\<lparr>errors := newErrors (formData w)\<rparr>)"
  by (simp add: handleSubmit_def validateForm_def)


lemma handleSubmit_create_fails:
  "newErrors (formData w) = [] \<Longrightarrow> createEmployee gw (dataToSubmit (formData w)) = Inl e \<Longrightarrow>
   handleSubmit gw None w =
     Normal (w\<lparr>trace := trace w @
        [Call (CreateEmployee (dataToSubmit (formData w))),
         ConsoleError (js ''Error saving employee:''), Toast TError (errorMessage e)],
        loading := False, errors := []\<rparr>)"
  by (simp add: handleSubmit_def validateForm_def effect_defs)

lemma handleSubmit_update_ok:
  "newErrors (formData w) = [] \<Longrightarrow>
   updateEmployee gw (id' r) (dataToSubmit (formData w)) = Inr r' \<Longrightarrow>
   handleSubmit gw (Some r) w =
     Normal (w\<lparr>trace := trace w @
        [Call (UpdateEmployee (id' r) (dataToSubmit (formData w))),
         Toast TSuccess (js ''Employee updated successfully''), OnSuccess, OnClose],
        loading := False, errors := []\<rparr>)"
  by (simp add: handleSubmit_def validateForm_def effect_defs)

lemma handleSubmit_update_fails:
  "newErrors (formData w) = [] \<Longrightarrow>
   updateEmployee gw (id' r) (dataToSubmit (formData w)) = Inl e \<Longrightarrow>
   handleSubmit gw (Some r) w =
     Normal (w\<lparr>trace := trace w @
        [Call (UpdateEmployee (id' r) (dataToSubmit (formData w))),
         ConsoleError (js ''Error saving employee:''), Toast TError (errorMessage e)],
        loading := False, errors := []\<rparr>)"
  by (simp add: handleSubmit_def validateForm_def effect_defs)

subsection \<open>The list\<close>

lemma fetchEmployees_ok:
  "getAllEmployees gw (fetch_params (filters w)) = Inr data \<Longrightarrow>
   fetchEmployees gw w =
     Normal (w\<lparr>trace := trace w @ [Call (GetAllEmployees (fetch_params (filters w)))],
        loading := False,
        employees := (case data_employees data of Some es \<Rightarrow> es | None \<Rightarrow> [])\<rparr>)"
  by (simp add: fetchEmployees_def effect_defs)

lemma fetchEmployees_fails:
  "getAllEmployees gw (fetch_params (filters w)) = Inl e \<Longrightarrow>
   fetchEmployees gw w =
     Normal (w\<lparr>trace := trace w @
        [Call (GetAllEmployees (fetch_params (filters w))),
         ConsoleError (js ''Error fetching employees:''),
         Toast TError (js ''Failed to fetch employees'')],
        loading := False\<rparr>)"
  by (simp add: fetchEmployees_def effect_defs)

lemma fetchEmployees_returns: "\<exists>w'. fetchEmployees gw w = Normal w'"
  by (cases "getAllEmployees gw (fetch_params (filters w))")
    (simp_all add: fetchEmployees_ok fetchEmployees_fails)

lemma fetchEmployees_thrown: "thrown (fetchEmployees gw w) = None"
  using fetchEmployees_returns [of gw w] by (auto simp: thrown_def)

lemma not_awaited_fetchEmployees: "not_awaited (fetchEmployees gw) w = fetchEmployees gw w"
  using fetchEmployees_returns [of gw w] by (auto simp: not_awaited_def)

lemma fetchEmployees_calls:
  "calls_of (trace (state_of (fetchEmployees gw w))) =
     calls_of (trace w) @ [GetAllEmployees (fetch_params (filters w))]"
  by (cases "getAllEmployees gw (fetch_params (filters w))")
    (simp_all add: fetchEmployees_ok fetchEmployees_fails state_of_def calls_of_append)

lemma handleDelete_declined:
  "\<not> window_confirm (js ''Are you sure you want to delete '' @ employeeName @ js ''?'') \<Longrightarrow>
   handleDelete gw window_confirm i employeeName w =
     Normal (w\<lparr>trace := trace w @
       [Confirm (js ''Are you sure you want to delete '' @ employeeName @ js ''?'')]\<rparr>)"
  by (simp add: handleDelete_def effect_defs Let_def)

lemma handleDelete_fails:
  "window_confirm (js ''Are you sure you want to delete '' @ employeeName @ js ''?'') \<Longrightarrow>
   deleteEmployee gw i = Inl e \<Longrightarrow>
   handleDelete gw window_confirm i employeeName w =
     Normal (w\<lparr>trace := trace w @
       [Confirm (js ''Are you sure you want to delete '' @ employeeName @ js ''?''),
        Call (DeleteEmployee i), ConsoleError (js ''Error deleting employee:''),
        Toast TError (js ''Failed to delete employee'')]\<rparr>)"
  by (simp add: handleDelete_def effect_defs Let_def)

lemma handleDelete_ok:
  "window_confirm (js ''Are you sure you want to delete '' @ employeeName @ js ''?'') \<Longrightarrow>
   deleteEmployee gw i = Inr u \<Longrightarrow>
   handleDelete gw window_confirm i employeeName w =
     fetchEmployees gw (w\<lparr>trace := trace w @
       [Confirm (js ''Are you sure you want to delete '' @ employeeName @ js ''?''),
        Call (DeleteEmployee i), Toast TSuccess (js ''Employee deleted successfully'')]\<rparr>)"
proof -
  assume a: "window_confirm (js ''Are you sure you want to delete '' @ employeeName @ js ''?'')"
    and b: "deleteEmployee gw i = Inr u"
  obtain w' where w': "fetchEmployees gw (w\<lparr>trace := trace w @
       [Confirm (js ''Are you sure you want to delete '' @ employeeName @ js ''?''),
        Call (DeleteEmployee i), Toast TSuccess (js ''Employee deleted successfully'')]\<rparr>) = Normal w'"
    using fetchEmployees_returns by blast
  show ?thesis
    using a b w'
    by (simp add: handleDelete_def try_catch_def await_def toast_def emit_def Let_def
        not_awaited_fetchEmployees)
qed

lemma handleToggleStatus_deactivate_fails:
  "deactivateEmployee gw i = Inl e \<Longrightarrow>
   handleToggleStatus gw i True employeeName w =
     Normal (w\<lparr>trace := trace w @
       [Call (DeactivateEmployee i), ConsoleError (js ''Error toggling status:''),
        Toast TError (js ''Failed to update status'')]\<rparr>)"
  by (simp add: handleToggleStatus_def effect_defs)

lemma handleToggleStatus_activate_fails:
  "activateEmployee gw i = Inl e \<Longrightarrow>
   handleToggleStatus gw i False employeeName w =
     Normal (w\<lparr>trace := trace w @
       [Call (ActivateEmployee i), ConsoleError (js ''Error toggling status:''),
        Toast TError (js ''Failed to update status'')]\<rparr>)"
  by (simp add: handleToggleStatus_def effect_defs)

lemma handleToggleStatus_deactivate_ok:
  "deactivateEmployee gw i = Inr r \<Longrightarrow>
   handleToggleStatus gw i True employeeName w =
     fetchEmployees gw (w\<lparr>trace := trace w @
       [Call (DeactivateEmployee i), Toast TSuccess (employeeName @ js '' deactivated'')]\<rparr>)"
proof -
  assume b: "deactivateEmployee gw i = Inr r"
  obtain w' where w': "fetchEmployees gw (w\<lparr>trace := trace w @
       [Call (DeactivateEmployee i), Toast TSuccess (employeeName @ js '' deactivated'')]\<rparr>) = Normal w'"
    using fetchEmployees_returns by blast
  show ?thesis
    using b w'
    by (simp add: handleToggleStatus_def try_catch_def await_def toast_def emit_def
        not_awaited_fetchEmployees)
qed

lemma handleToggleStatus_activate_ok:
  "activateEmployee gw i = Inr r \<Longrightarrow>
   handleToggleStatus gw i False employeeName w =
     fetchEmployees gw (w\<lparr>trace := trace w @
       [Call (ActivateEmployee i), Toast TSuccess (employeeName @ js '' activated'')]\<rparr>)"
proof -
  assume b: "activateEmployee gw i = Inr r"
  obtain w' where w': "fetchEmployees gw (w\<lparr>trace := trace w @
       [Call (ActivateEmployee i), Toast TSuccess (employeeName @ js '' activated'')]\<rparr>) = Normal w'"
    using fetchEmployees_returns by blast
  show ?thesis
    using b w'
    by (simp add: handleToggleStatus_def try_catch_def await_def toast_def emit_def
        not_awaited_fetchEmployees)
qed

subsection \<open>The search bar\<close>

lemma handleSearch_blank:
  "trim (searchTerm w) = [] \<Longrightarrow>
   handleSearch gw w =
     Normal (w\<lparr>trace := trace w @ [Toast TInfo (js ''Please enter a search term'')]\<rparr>)"
  by (simp add: handleSearch_def effect_defs)

lemma handleSearch_none_found:
  "trim (searchTerm w) \<noteq> [] \<Longrightarrow> searchEmployees gw (searchTerm w) = Inr [] \<Longrightarrow>
   handleSearch gw w =
     Normal (w\<lparr>trace := trace w @
       [Call (SearchEmployees (searchTerm w)), OnSearchResults (Some []),
        Toast TInfo (js ''No employees found matching your search'')],
       loading := False\<rparr>)"
  by (simp add: handleSearch_def effect_defs)

lemma handleSearch_found:
  "trim (searchTerm w) \<noteq> [] \<Longrightarrow> searchEmployees gw (searchTerm w) = Inr results \<Longrightarrow>
   results \<noteq> [] \<Longrightarrow>
   handleSearch gw w =
     Normal (w\<lparr>trace := trace w @
       [Call (SearchEmployees (searchTerm w)), OnSearchResults (Some results),
        Toast TSuccess (js ''Found '' @ decimal_digits (length results) @ js '' employee(s)'')],
       loading := False\<rparr>)"
  by (simp add: handleSearch_def effect_defs del: decimal_digits.simps)

lemma handleSearch_fails:
  "trim (searchTerm w) \<noteq> [] \<Longrightarrow> searchEmployees gw (searchTerm w) = Inl e \<Longrightarrow>
   handleSearch gw w =
     Normal (w\<lparr>trace := trace w @
       [Call (SearchEmployees (searchTerm w)), ConsoleError (js ''Error searching employees:''),
        Toast TError (js ''Failed to search employees'')],
       loading := False\<rparr>)"
  by (simp add: handleSearch_def effect_defs)

subsection \<open>The dashboard\<close>

lemma fetchStats_ok:
  "getAllEmployees gw [] = Inr allData \<Longrightarrow>
   getAllEmployees gw [(''is_active'', QBool True)] = Inr activeData \<Longrightarrow>
   getAllEmployees gw [(''is_active'', QBool False)] = Inr inactiveData \<Longrightarrow>
   fetchStats gw w =
     Normal (w\<lparr>trace := trace w @
       [Call (GetAllEmployees []), Call (GetAllEmployees [(''is_active'', QBool True)]),
        Call (GetAllEmployees [(''is_active'', QBool False)])],
       stats := \<lparr>total = or_zero (data_total allData), active = or_zero (data_total activeData),
                 inactive = or_zero (data_total inactiveData)\<rparr>\<rparr>)"
  by (simp add: fetchStats_def effect_defs)

lemma fetchStats_fails:
  "getAllEmployees gw [] = Inl e \<or>
   getAllEmployees gw [(''is_active'', QBool True)] = Inl e \<or>
   getAllEmployees gw [(''is_active'', QBool False)] = Inl e \<Longrightarrow>
   thrown (fetchStats gw w) = None \<and>
   stats (state_of (fetchStats gw w)) = stats w \<and>
   toasts_of (trace (state_of (fetchStats gw w))) = toasts_of (trace w)"
  by (cases "getAllEmployees gw []"; cases "getAllEmployees gw [(''is_active'', QBool True)]";
      cases "getAllEmployees gw [(''is_active'', QBool False)]")
    (simp_all add: fetchStats_def effect_defs thrown_def state_of_def toasts_of_append)

subsection \<open>Both outcomes of a call\<close>


lemma fetchEmployees_toasts:
  "toasts_of (trace (state_of (fetchEmployees gw w))) =
     toasts_of (trace w) @
       (case getAllEmployees gw (fetch_params (filters w)) of
          Inl e \<Rightarrow> [(TError, js ''Failed to fetch employees'')]
        | Inr data \<Rightarrow> [])"
  by (cases "getAllEmployees gw (fetch_params (filters w))")
    (simp_all add: fetchEmployees_ok fetchEmployees_fails state_of_def toasts_of_append)

lemma handleSubmit_fails:
  "newErrors (formData w) = [] \<Longrightarrow>
   (case employee of
      Some r \<Rightarrow> updateEmployee gw (id' r) (dataToSubmit (formData w))
    | None \<Rightarrow> createEmployee gw (dataToSubmit (formData w))) = Inl e \<Longrightarrow>
   handleSubmit gw employee w =
     Normal (w\<lparr>trace := trace w @
        [Call (case employee of
                 Some r \<Rightarrow> UpdateEmployee (id' r) (dataToSubmit (formData w))
               | None \<Rightarrow> CreateEmployee (dataToSubmit (formData w))),
         ConsoleError (js ''Error saving employee:''), Toast TError (errorMessage e)],
        loading := False, errors := []\<rparr>)"
  by (cases employee) (simp_all add: handleSubmit_create_fails handleSubmit_update_fails)

lemma handleToggleStatus_fails:
  "(if currentStatus then deactivateEmployee gw i else activateEmployee gw i) = Inl e \<Longrightarrow>
   handleToggleStatus gw i currentStatus employeeName w =
     Normal (w\<lparr>trace := trace w @
       [Call (if currentStatus then DeactivateEmployee i else ActivateEmployee i),
        ConsoleError (js ''Error toggling status:''),
        Toast TError (js ''Failed to update status'')]\<rparr>)"
  by (cases currentStatus)
    (simp_all add: handleToggleStatus_deactivate_fails handleToggleStatus_activate_fails)

section \<open>Sample evaluations\<close>

lemmas string_eval = trim_def js_def js_whitespace_def

lemmas regex_eval = regex_test_def matches_def email_pattern_def Plus_def Lit_def NonSpace_def
  AnyUnit_def

lemmas literal_eval = str_decimal_prefix_def unsigned_decimal_def exponent_part_def
  decimal_value_def digits_in_base_def digit_value_def is_digit_def scale10_def
  non_decimal_literal_def js_def Let_def

lemmas double_eval = nearest_double_def binade_def pow2_def round_half_even_def
  log2_floor.simps Let_def

lemma email_samples:
  "trim (js ''a@b.co'') \<noteq> []" "regex_test email_pattern (js ''a@b.co'')"
  "trim (js ''not-an-email'') \<noteq> []" "\<not> regex_test email_pattern (js ''not-an-email'')"
  by (simp_all add: string_eval regex_eval)

lemma literal_samples:
  "str_decimal_prefix (js ''-5'') = Some (True, Ratio 5 1, [])"
  "str_decimal_prefix (js ''0'') = Some (False, Ratio 0 1, [])"
  "str_decimal_prefix (js ''1200.50'') = Some (False, Ratio 120050 100, [])"
  "non_decimal_literal (js ''-5'') = None"
  "non_decimal_literal (js ''0'') = None"
  "non_decimal_literal (js ''1200.50'') = None"
  by (simp_all add: literal_eval)

lemma double_samples:
  "nearest_double 5 (Suc 0) = Some 5"
  "nearest_double 0 (Suc 0) = Some 0"
  "nearest_double 120050 100 = Some (2401 / 2)"
  by (simp_all add: double_eval)

text \<open>Literals that are no doubles are rounded: \<open>1234.56\<close>, \<open>2^53 + 1\<close> (a tie) and \<open>0.1\<close>.\<close>

lemma rounding_samples:
  "nearest_double 123456 100 = Some (2714826150374277 / 2 ^ 41)"
  "nearest_double 9007199254740993 1 = Some 9007199254740992"
  "nearest_double 1 10 = Some (3602879701896397 / 2 ^ 55)"
  by (simp_all add: double_eval)

lemma trim_samples:
  "trim (js ''-5'') = js ''-5''" "trim (js ''0'') = js ''0''"
  "trim (js ''1200.50'') = js ''1200.50''" "trimStart (js ''1200.50'') = js ''1200.50''"
  "js ''-5'' \<noteq> []" "js ''0'' \<noteq> []" "js ''1200.50'' \<noteq> []"
  by (simp_all add: trim_def trimStart_def js_def js_whitespace_def)

lemma salary_samples:
  "ToNumber (JStr (js ''-5'')) = Finite (- 5)" "ToNumber (JStr (js ''0'')) = Finite 0"
  "js ''-5'' \<noteq> []"
  by (simp_all add: StringToNumber_def trim_samples literal_samples double_samples
      round_double_def)

lemma newErrors_ann_lee: "newErrors ann_lee = []"
  by (simp add: newErrors_def ann_lee_def initial_formData_def trim_def js_def js_whitespace_def
      regex_test_def matches_def email_pattern_def Plus_def Lit_def NonSpace_def AnyUnit_def)

lemma newErrors_seed_jane_doe: "newErrors (seed_formData jane_doe) = []"
  by (simp add: newErrors_def seed_formData_def jane_doe_def or_empty_def trim_def js_def
      js_whitespace_def regex_test_def matches_def email_pattern_def Plus_def Lit_def
      NonSpace_def AnyUnit_def)

lemma dataToSubmit_seed_jane_doe:
  "dataToSubmit (seed_formData jane_doe) =
     \<lparr>employee_id = js ''E007'', first_name = js ''Jane'', last_name = js ''Doe'',
      email = js ''jane@x.com'', phone = None, department = Some (js ''Sales''),
      position = None, salary = Some (Finite 50000), hire_date = None, is_active = True\<rparr>"
  by (simp add: dataToSubmit_def seed_formData_def jane_doe_def or_empty_def or_null_def js_def)


text \<open>The same literals through \<open>parseFloat\<close> and \<open>ToNumber\<close>.\<close>

lemma rounded_literals:
  "parseFloat_string (js ''1234.56'') = Finite (2714826150374277 / 2 ^ 41)"
  "StringToNumber (js ''9007199254740993'') = Finite 9007199254740992"
  "StringToNumber (js ''0.1'') = Finite (3602879701896397 / 2 ^ 55)"
proof -
  have literals:
    "str_decimal_prefix (js ''1234.56'') = Some (False, Ratio 123456 100, [])"
    "str_decimal_prefix (js ''9007199254740993'') = Some (False, Ratio 9007199254740993 1, [])"
    "str_decimal_prefix (js ''0.1'') = Some (False, Ratio 1 10, [])"
    "non_decimal_literal (js ''9007199254740993'') = None"
    "non_decimal_literal (js ''0.1'') = None"
    by (simp_all add: literal_eval)
  have plain:
    "trimStart (js ''1234.56'') = js ''1234.56''"
    "trim (js ''9007199254740993'') = js ''9007199254740993''"
    "trim (js ''0.1'') = js ''0.1''"
    "js ''9007199254740993'' \<noteq> []" "js ''0.1'' \<noteq> []"
    by (simp_all add: trim_def trimStart_def js_def js_whitespace_def)
  show "parseFloat_string (js ''1234.56'') = Finite (2714826150374277 / 2 ^ 41)"
    "StringToNumber (js ''9007199254740993'') = Finite 9007199254740992"
    "StringToNumber (js ''0.1'') = Finite (3602879701896397 / 2 ^ 55)"
    by (simp_all add: parseFloat_string_def StringToNumber_def plain literals round_double_def
        rounding_samples del: One_nat_def)
qed

section \<open>The claims\<close>

subsection \<open>Required fields\<close>

text \<open>
  Claim C1. For every draft in which \<open>employee_id\<close>, \<open>first_name\<close>, \<open>last_name\<close> or
  \<open>email\<close> is empty or holds white space only, \<open>validateForm\<close> builds an error object
  that is not empty and maps that field to its message (\<open>Employee ID is required\<close>,
  \<open>First name is required\<close>, \<open>Last name is required\<close>, \<open>Email is required\<close>), and
  \<open>handleSubmit\<close> stores the errors and returns: the trace gains no event, so neither
  \<open>createEmployee\<close> nor \<open>updateEmployee\<close> is called.
\<close>

theorem C1_required_fields_block_submit:
  "(whitespace_only (employee_id (formData w)) \<longrightarrow>
      map_of (newErrors (formData w)) ''employee_id'' = Some (js ''Employee ID is required'')) \<and>
   (whitespace_only (first_name (formData w)) \<longrightarrow>
      map_of (newErrors (formData w)) ''first_name'' = Some (js ''First name is required'')) \<and>
   (whitespace_only (last_name (formData w)) \<longrightarrow>
      map_of (newErrors (formData w)) ''last_name'' = Some (js ''Last name is required'')) \<and>
   (whitespace_only (email (formData w)) \<longrightarrow>
      map_of (newErrors (formData w)) ''email'' = Some (js ''Email is required'')) \<and>
   (whitespace_only (employee_id (formData w)) \<or> whitespace_only (first_name (formData w)) \<or>
    whitespace_only (last_name (formData w)) \<or> whitespace_only (email (formData w)) \<longrightarrow>
      newErrors (formData w) \<noteq> [] \<and>
      handleSubmit gw employee w = Normal (w\<lparr>errors := newErrors (formData w)\<rparr>) \<and>
      calls_of (trace (state_of (handleSubmit gw employee w))) = calls_of (trace w))"
proof -
  have fields:
    "whitespace_only (employee_id (formData w)) \<longrightarrow>
       map_of (newErrors (formData w)) ''employee_id'' = Some (js ''Employee ID is required'')"
    "whitespace_only (first_name (formData w)) \<longrightarrow>
       map_of (newErrors (formData w)) ''first_name'' = Some (js ''First name is required'')"
    "whitespace_only (last_name (formData w)) \<longrightarrow>
       map_of (newErrors (formData w)) ''last_name'' = Some (js ''Last name is required'')"
    "whitespace_only (email (formData w)) \<longrightarrow>
       map_of (newErrors (formData w)) ''email'' = Some (js ''Email is required'')"
    by (simp_all add: whitespace_only_def trim_empty_iff newErrors_employee_id
        newErrors_first_name newErrors_last_name newErrors_email)
  have blocked:
    "newErrors (formData w) \<noteq> [] \<and>
     handleSubmit gw employee w = Normal (w\<lparr>errors := newErrors (formData w)\<rparr>) \<and>
     calls_of (trace (state_of (handleSubmit gw employee w))) = calls_of (trace w)"
    if missing: "whitespace_only (employee_id (formData w)) \<or>
      whitespace_only (first_name (formData w)) \<or> whitespace_only (last_name (formData w)) \<or>
      whitespace_only (email (formData w))"
  proof -
    from missing fields obtain k v where "map_of (newErrors (formData w)) k = Some v"
      by blast
    then have ne: "newErrors (formData w) \<noteq> []"
      by auto
    then show ?thesis
      by (simp add: handleSubmit_invalid state_of_def)
  qed
  from fields blocked show ?thesis
    by blast
qed

theorem C1_witness:
  "whitespace_only (employee_id (formData (form_of (initial_formData\<lparr>first_name := js ''  ''\<rparr>)))) \<and>
   whitespace_only (first_name (formData (form_of (initial_formData\<lparr>first_name := js ''  ''\<rparr>)))) \<and>
   whitespace_only (last_name (formData (form_of (initial_formData\<lparr>first_name := js ''  ''\<rparr>)))) \<and>
   whitespace_only (email (formData (form_of (initial_formData\<lparr>first_name := js ''  ''\<rparr>)))) \<and>
   newErrors (initial_formData\<lparr>first_name := js ''  ''\<rparr>) =
     [(''employee_id'', js ''Employee ID is required''),
      (''first_name'', js ''First name is required''),
      (''last_name'', js ''Last name is required''),
      (''email'', js ''Email is required'')] \<and>
   map_of (newErrors (initial_formData\<lparr>first_name := js ''  ''\<rparr>)) ''employee_id'' =
     Some (js ''Employee ID is required'') \<and>
   map_of (newErrors (initial_formData\<lparr>first_name := js ''  ''\<rparr>)) ''first_name'' =
     Some (js ''First name is required'') \<and>
   map_of (newErrors (initial_formData\<lparr>first_name := js ''  ''\<rparr>)) ''last_name'' =
     Some (js ''Last name is required'') \<and>
   map_of (newErrors (initial_formData\<lparr>first_name := js ''  ''\<rparr>)) ''email'' =
     Some (js ''Email is required'') \<and>
   handleSubmit (accepting_backend []) None (form_of (initial_formData\<lparr>first_name := js ''  ''\<rparr>)) =
     Normal ((form_of (initial_formData\<lparr>first_name := js ''  ''\<rparr>))
       \<lparr>errors := newErrors (initial_formData\<lparr>first_name := js ''  ''\<rparr>)\<rparr>) \<and>
   calls_of (trace (state_of (handleSubmit (accepting_backend []) None
     (form_of (initial_formData\<lparr>first_name := js ''  ''\<rparr>))))) = []"
proof -
  let ?d = "initial_formData\<lparr>first_name := js ''  ''\<rparr>"
  have blank: "whitespace_only (employee_id (formData (form_of ?d)))"
    "whitespace_only (first_name (formData (form_of ?d)))"
    "whitespace_only (last_name (formData (form_of ?d)))"
    "whitespace_only (email (formData (form_of ?d)))"
    by (simp_all add: whitespace_only_def form_of_def initial_formData_def js_def
        js_whitespace_def)
  have errs: "newErrors ?d =
     [(''employee_id'', js ''Employee ID is required''),
      (''first_name'', js ''First name is required''),
      (''last_name'', js ''Last name is required''),
      (''email'', js ''Email is required'')]"
    by (simp add: newErrors_def initial_formData_def string_eval)
  note claim = C1_required_fields_block_submit [of "form_of ?d" "accepting_backend []" None]
  have draft: "formData (form_of ?d) = ?d" "trace (form_of ?d) = []"
    by (simp_all add: form_of_def)
  from claim [THEN conjunct1, THEN mp, OF blank(1)]
  have r1: "map_of (newErrors ?d) ''employee_id'' = Some (js ''Employee ID is required'')"
    by (simp only: draft)
  from claim [THEN conjunct2, THEN conjunct1, THEN mp, OF blank(2)]
  have r2: "map_of (newErrors ?d) ''first_name'' = Some (js ''First name is required'')"
    by (simp only: draft)
  from claim [THEN conjunct2, THEN conjunct2, THEN conjunct1, THEN mp, OF blank(3)]
  have r3: "map_of (newErrors ?d) ''last_name'' = Some (js ''Last name is required'')"
    by (simp only: draft)
  from claim [THEN conjunct2, THEN conjunct2, THEN conjunct2, THEN conjunct1, THEN mp,
      OF blank(4)]
  have r4: "map_of (newErrors ?d) ''email'' = Some (js ''Email is required'')"
    by (simp only: draft)
  note blocked = claim [THEN conjunct2, THEN conjunct2, THEN conjunct2, THEN conjunct2, THEN mp,
      OF disjI1 [OF blank(1)]]
  from blocked [THEN conjunct2, THEN conjunct1]
  have r5: "handleSubmit (accepting_backend []) None (form_of ?d) =
       Normal ((form_of ?d)\<lparr>errors := newErrors ?d\<rparr>)"
    by (simp only: draft)
  from blocked [THEN conjunct2, THEN conjunct2]
  have r6: "calls_of (trace (state_of (handleSubmit (accepting_backend []) None (form_of ?d)))) = []"
    by (simp only: draft calls_of.simps)
  from blank errs r1 r2 r3 r4 r5 r6 show ?thesis
    by (intro conjI)
qed

subsection \<open>Filters of the list request\<close>

text \<open>
  Claim C2. For every filter state, the parameters of the list request hold the key
  \<open>department\<close> exactly when a department is selected (its value is that string) and
  the key \<open>is_active\<close> exactly when the status filter is set (its value is a boolean:
  whether the select holds \<open>true\<close>); no other key is sent. With the status filter on
  \<open>true\<close> and no department the request carries \<open>is_active = true\<close> only, and with no
  filter it carries no parameter. \<open>fetchEmployees\<close> makes one call, with these parameters,
  and the service passes them on as the query of the request.
\<close>

theorem C2_list_request_parameters:
  "map_of (fetch_params f) ''department'' =
     (if filter_department f = [] then None else Some (QStr (filter_department f))) \<and>
   map_of (fetch_params f) ''is_active'' =
     (if filter_is_active f = [] then None
      else Some (QBool (filter_is_active f = js ''true''))) \<and>
   fst ` set (fetch_params f) \<subseteq> {''department'', ''is_active''} \<and>
   fetch_params \<lparr>filter_department = [], filter_is_active = js ''true''\<rparr> =
     [(''is_active'', QBool True)] \<and>
   fetch_params \<lparr>filter_department = [], filter_is_active = []\<rparr> = [] \<and>
   calls_of (trace (state_of (fetchEmployees gw w))) =
     calls_of (trace w) @ [GetAllEmployees (fetch_params (filters w))] \<and>
   query (request_of (GetAllEmployees (fetch_params (filters w)))) = fetch_params (filters w)"
proof -
  have keys: "fst ` set (fetch_params f) \<subseteq> {''department'', ''is_active''}"
    by (auto simp: fetch_params_def split: if_splits)
  have active_only: "fetch_params \<lparr>filter_department = [], filter_is_active = js ''true''\<rparr> =
      [(''is_active'', QBool True)]"
    by (simp add: fetch_params_def js_def)
  show ?thesis
    using keys active_only
    by (simp add: fetchEmployees_calls) (simp add: fetch_params_def)
qed

theorem C2_witness:
  "fetch_params \<lparr>filter_department = js ''Sales'', filter_is_active = js ''false''\<rparr> =
     [(''department'', QStr (js ''Sales'')), (''is_active'', QBool False)] \<and>
   map_of (fetch_params \<lparr>filter_department = js ''Sales'', filter_is_active = js ''false''\<rparr>)
     ''is_active'' = Some (QBool False) \<and>
   calls_of (trace (state_of (fetchEmployees (accepting_backend []) (list_of [])))) =
     [GetAllEmployees []]"
  using C2_list_request_parameters
    [of "\<lparr>filter_department = js ''Sales'', filter_is_active = js ''false''\<rparr>"
      "accepting_backend []" "list_of []"]
  by (simp add: fetch_params_def list_of_def js_def)

subsection \<open>Submitting a valid draft\<close>





subsection \<open>Failures of the service\<close>

text \<open>
  Claim C4, as the code has it. When the call of the service fails in \<open>handleSubmit\<close>,
  \<open>fetchEmployees\<close>, \<open>handleDelete\<close>, \<open>handleToggleStatus\<close> or \<open>handleSearch\<close>, the error
  is caught where the call is made: the handler completes normally, exactly one
  notification, an error toast, is shown, and what was displayed stays: the draft is
  kept and the form is not closed, the list keeps its records and filters, and nothing
  is forwarded as search results. \<open>fetchStats\<close> of the dashboard catches the error too
  and keeps the statistics, but it writes to the console only: no notification is shown,
  where the specification says one is; the last theorem of this section shows it.
\<close>

theorem C4_failures_are_caught:
  "(newErrors (formData fw) = [] \<and>
    (case employee of
       Some r \<Rightarrow> updateEmployee gw (id' r) (dataToSubmit (formData fw))
     | None \<Rightarrow> createEmployee gw (dataToSubmit (formData fw))) = Inl e \<longrightarrow>
      handleSubmit gw employee fw =
        Normal (fw\<lparr>trace := trace fw @
          [Call (case employee of
                   Some r \<Rightarrow> UpdateEmployee (id' r) (dataToSubmit (formData fw))
                 | None \<Rightarrow> CreateEmployee (dataToSubmit (formData fw))),
           ConsoleError (js ''Error saving employee:''), Toast TError (errorMessage e)],
          loading := False, errors := []\<rparr>) \<and>
      toasts_of (trace (state_of (handleSubmit gw employee fw))) =
        toasts_of (trace fw) @ [(TError, errorMessage e)]) \<and>
   (getAllEmployees gw (fetch_params (filters lw)) = Inl e \<longrightarrow>
      fetchEmployees gw lw =
        Normal (lw\<lparr>trace := trace lw @
          [Call (GetAllEmployees (fetch_params (filters lw))),
           ConsoleError (js ''Error fetching employees:''),
           Toast TError (js ''Failed to fetch employees'')],
          loading := False\<rparr>) \<and>
      toasts_of (trace (state_of (fetchEmployees gw lw))) =
        toasts_of (trace lw) @ [(TError, js ''Failed to fetch employees'')]) \<and>
   (window_confirm (js ''Are you sure you want to delete '' @ employeeName @ js ''?'') \<and>
    deleteEmployee gw i = Inl e \<longrightarrow>
      handleDelete gw window_confirm i employeeName lw =
        Normal (lw\<lparr>trace := trace lw @
          [Confirm (js ''Are you sure you want to delete '' @ employeeName @ js ''?''),
           Call (DeleteEmployee i), ConsoleError (js ''Error deleting employee:''),
           Toast TError (js ''Failed to delete employee'')]\<rparr>) \<and>
      toasts_of (trace (state_of (handleDelete gw window_confirm i employeeName lw))) =
        toasts_of (trace lw) @ [(TError, js ''Failed to delete employee'')]) \<and>
   ((if currentStatus then deactivateEmployee gw i else activateEmployee gw i) = Inl e \<longrightarrow>
      handleToggleStatus gw i currentStatus employeeName lw =
        Normal (lw\<lparr>trace := trace lw @
          [Call (if currentStatus then DeactivateEmployee i else ActivateEmployee i),
           ConsoleError (js ''Error toggling status:''),
           Toast TError (js ''Failed to update status'')]\<rparr>) \<and>
      toasts_of (trace (state_of (handleToggleStatus gw i currentStatus employeeName lw))) =
        toasts_of (trace lw) @ [(TError, js ''Failed to update status'')]) \<and>
   (trim (searchTerm sw) \<noteq> [] \<and> searchEmployees gw (searchTerm sw) = Inl e \<longrightarrow>
      handleSearch gw sw =
        Normal (sw\<lparr>trace := trace sw @
          [Call (SearchEmployees (searchTerm sw)), ConsoleError (js ''Error searching employees:''),
           Toast TError (js ''Failed to search employees'')],
          loading := False\<rparr>) \<and>
      toasts_of (trace (state_of (handleSearch gw sw))) =
        toasts_of (trace sw) @ [(TError, js ''Failed to search employees'')]) \<and>
   (getAllEmployees gw [] = Inl e \<or>
    getAllEmployees gw [(''is_active'', QBool True)] = Inl e \<or>
    getAllEmployees gw [(''is_active'', QBool False)] = Inl e \<longrightarrow>
      thrown (fetchStats gw dw) = None \<and>
      stats (state_of (fetchStats gw dw)) = stats dw \<and>
      toasts_of (trace (state_of (fetchStats gw dw))) = toasts_of (trace dw))"
proof -
  have form: "handleSubmit gw employee fw =
        Normal (fw\<lparr>trace := trace fw @
          [Call (case employee of
                   Some r \<Rightarrow> UpdateEmployee (id' r) (dataToSubmit (formData fw))
                 | None \<Rightarrow> CreateEmployee (dataToSubmit (formData fw))),
           ConsoleError (js ''Error saving employee:''), Toast TError (errorMessage e)],
          loading := False, errors := []\<rparr>) \<and>
      toasts_of (trace (state_of (handleSubmit gw employee fw))) =
        toasts_of (trace fw) @ [(TError, errorMessage e)]"
    if "newErrors (formData fw) = []"
      and "(case employee of
         Some r \<Rightarrow> updateEmployee gw (id' r) (dataToSubmit (formData fw))
       | None \<Rightarrow> createEmployee gw (dataToSubmit (formData fw))) = Inl e"
    using handleSubmit_fails [OF that]
    by (simp add: state_of_def toasts_of_append)
  have fetch: "fetchEmployees gw lw =
        Normal (lw\<lparr>trace := trace lw @
          [Call (GetAllEmployees (fetch_params (filters lw))),
           ConsoleError (js ''Error fetching employees:''),
           Toast TError (js ''Failed to fetch employees'')],
          loading := False\<rparr>) \<and>
      toasts_of (trace (state_of (fetchEmployees gw lw))) =
        toasts_of (trace lw) @ [(TError, js ''Failed to fetch employees'')]"
    if "getAllEmployees gw (fetch_params (filters lw)) = Inl e"
    using fetchEmployees_fails [OF that]
    by (simp add: state_of_def toasts_of_append)
  have delete: "handleDelete gw window_confirm i employeeName lw =
        Normal (lw\<lparr>trace := trace lw @
          [Confirm (js ''Are you sure you want to delete '' @ employeeName @ js ''?''),
           Call (DeleteEmployee i), ConsoleError (js ''Error deleting employee:''),
           Toast TError (js ''Failed to delete employee'')]\<rparr>) \<and>
      toasts_of (trace (state_of (handleDelete gw window_confirm i employeeName lw))) =
        toasts_of (trace lw) @ [(TError, js ''Failed to delete employee'')]"
    if "window_confirm (js ''Are you sure you want to delete '' @ employeeName @ js ''?'')"
      and "deleteEmployee gw i = Inl e"
    using that
    by (simp add: handleDelete_fails state_of_def toasts_of_append)
  have toggle: "handleToggleStatus gw i currentStatus employeeName lw =
        Normal (lw\<lparr>trace := trace lw @
          [Call (if currentStatus then DeactivateEmployee i else ActivateEmployee i),
           ConsoleError (js ''Error toggling status:''),
           Toast TError (js ''Failed to update status'')]\<rparr>) \<and>
      toasts_of (trace (state_of (handleToggleStatus gw i currentStatus employeeName lw))) =
        toasts_of (trace lw) @ [(TError, js ''Failed to update status'')]"
    if "(if currentStatus then deactivateEmployee gw i else activateEmployee gw i) = Inl e"
    using handleToggleStatus_fails [OF that]
    by (simp add: state_of_def toasts_of_append)
  have search: "handleSearch gw sw =
        Normal (sw\<lparr>trace := trace sw @
          [Call (SearchEmployees (searchTerm sw)), ConsoleError (js ''Error searching employees:''),
           Toast TError (js ''Failed to search employees'')],
          loading := False\<rparr>) \<and>
      toasts_of (trace (state_of (handleSearch gw sw))) =
        toasts_of (trace sw) @ [(TError, js ''Failed to search employees'')]"
    if "trim (searchTerm sw) \<noteq> []" and "searchEmployees gw (searchTerm sw) = Inl e"
    using handleSearch_fails [OF that]
    by (simp add: state_of_def toasts_of_append)
  from form fetch delete toggle search fetchStats_fails [of gw e dw] show ?thesis
    by blast
qed

theorem C4_witness:
  "handleSubmit (failing_backend (RemoteError 409 (Some (js ''Employee ID already exists''))))
       None (form_of ann_lee) =
     Normal ((form_of ann_lee)\<lparr>trace :=
       [Call (CreateEmployee (dataToSubmit ann_lee)),
        ConsoleError (js ''Error saving employee:''),
        Toast TError (js ''Employee ID already exists'')]\<rparr>) \<and>
   fetchEmployees (failing_backend (RemoteError 409 (Some (js ''Employee ID already exists''))))
       (list_of [jane_doe]) =
     Normal ((list_of [jane_doe])\<lparr>trace :=
       [Call (GetAllEmployees []), ConsoleError (js ''Error fetching employees:''),
        Toast TError (js ''Failed to fetch employees'')]\<rparr>) \<and>
   toasts_of (trace (state_of (handleDelete
       (failing_backend (RemoteError 409 (Some (js ''Employee ID already exists''))))
       (\<lambda>q. True) 7 (js ''Jane Doe'') (list_of [jane_doe])))) =
     [(TError, js ''Failed to delete employee'')] \<and>
   toasts_of (trace (state_of (handleToggleStatus
       (failing_backend (RemoteError 409 (Some (js ''Employee ID already exists''))))
       7 True (js ''Jane Doe'') (list_of [jane_doe])))) =
     [(TError, js ''Failed to update status'')] \<and>
   toasts_of (trace (state_of (handleSearch
       (failing_backend (RemoteError 409 (Some (js ''Employee ID already exists''))))
       (search_of (js ''doe''))))) =
     [(TError, js ''Failed to search employees'')] \<and>
   thrown (fetchStats (failing_backend (RemoteError 409 (Some (js ''Employee ID already exists''))))
       (dashboard_of \<lparr>total = 3, active = 2, inactive = 1\<rparr>)) = None \<and>
   stats (state_of (fetchStats
       (failing_backend (RemoteError 409 (Some (js ''Employee ID already exists''))))
       (dashboard_of \<lparr>total = 3, active = 2, inactive = 1\<rparr>))) =
     \<lparr>total = 3, active = 2, inactive = 1\<rparr> \<and>
   toasts_of (trace (state_of (fetchStats
       (failing_backend (RemoteError 409 (Some (js ''Employee ID already exists''))))
       (dashboard_of \<lparr>total = 3, active = 2, inactive = 1\<rparr>)))) = []"
proof -
  let ?e = "RemoteError 409 (Some (js ''Employee ID already exists''))"
  let ?gw = "failing_backend ?e"
  let ?dw = "dashboard_of \<lparr>total = 3, active = 2, inactive = 1\<rparr>"
  have valid: "newErrors (formData (form_of ann_lee)) = []"
    by (simp add: form_of_def newErrors_ann_lee)
  have typed: "trim (searchTerm (search_of (js ''doe''))) \<noteq> []"
    by (simp add: search_of_def string_eval)
  have message: "errorMessage ?e = js ''Employee ID already exists''"
    by (simp add: errorMessage_def js_def)
  have refused:
    "(case None of
        Some r \<Rightarrow> updateEmployee ?gw (id' r) (dataToSubmit (formData (form_of ann_lee)))
      | None \<Rightarrow> createEmployee ?gw (dataToSubmit (formData (form_of ann_lee)))) = Inl ?e"
    "getAllEmployees ?gw (fetch_params (filters (list_of [jane_doe]))) = Inl ?e"
    "deleteEmployee ?gw 7 = Inl ?e"
    "(if True then deactivateEmployee ?gw 7 else activateEmployee ?gw 7) = Inl ?e"
    "searchEmployees ?gw (searchTerm (search_of (js ''doe''))) = Inl ?e"
    "getAllEmployees ?gw [] = Inl ?e"
    by (simp_all add: failing_backend_def)
  note claim = C4_failures_are_caught [where fw = "form_of ann_lee" and employee = None
      and gw = ?gw and e = ?e and lw = "list_of [jane_doe]" and window_confirm = "\<lambda>q. True"
      and employeeName = "js ''Jane Doe''" and i = 7 and currentStatus = True
      and sw = "search_of (js ''doe'')" and dw = ?dw]
  from claim [THEN conjunct1, THEN mp, OF conjI [OF valid refused(1)], THEN conjunct1] have form:
    "handleSubmit ?gw None (form_of ann_lee) =
     Normal ((form_of ann_lee)\<lparr>trace :=
       [Call (CreateEmployee (dataToSubmit ann_lee)),
        ConsoleError (js ''Error saving employee:''),
        Toast TError (js ''Employee ID already exists'')]\<rparr>)"
    by (simp add: message form_of_def)
  from claim [THEN conjunct2, THEN conjunct1, THEN mp, OF refused(2), THEN conjunct1] have fetch:
    "fetchEmployees ?gw (list_of [jane_doe]) =
     Normal ((list_of [jane_doe])\<lparr>trace :=
       [Call (GetAllEmployees []), ConsoleError (js ''Error fetching employees:''),
        Toast TError (js ''Failed to fetch employees'')]\<rparr>)"
    by (simp add: list_of_def fetch_params_def)
  from claim [THEN conjunct2, THEN conjunct2, THEN conjunct1, THEN mp,
      OF conjI [OF TrueI refused(3)], THEN conjunct2] have delete:
    "toasts_of (trace (state_of (handleDelete ?gw (\<lambda>q. True) 7 (js ''Jane Doe'')
        (list_of [jane_doe])))) = [(TError, js ''Failed to delete employee'')]"
    by (simp add: list_of_def)
  from claim [THEN conjunct2, THEN conjunct2, THEN conjunct2, THEN conjunct1, THEN mp,
      OF refused(4), THEN conjunct2] have toggle:
    "toasts_of (trace (state_of (handleToggleStatus ?gw 7 True (js ''Jane Doe'')
        (list_of [jane_doe])))) = [(TError, js ''Failed to update status'')]"
    by (simp add: list_of_def)
  from claim [THEN conjunct2, THEN conjunct2, THEN conjunct2, THEN conjunct2, THEN conjunct1,
      THEN mp, OF conjI [OF typed refused(5)], THEN conjunct2] have search:
    "toasts_of (trace (state_of (handleSearch ?gw (search_of (js ''doe''))))) =
       [(TError, js ''Failed to search employees'')]"
    by (simp add: search_of_def)
  from claim [THEN conjunct2, THEN conjunct2, THEN conjunct2, THEN conjunct2, THEN conjunct2,
      THEN mp, OF disjI1 [OF refused(6)]] have
    "thrown (fetchStats ?gw ?dw) = None \<and>
      stats (state_of (fetchStats ?gw ?dw)) = stats ?dw \<and>
      toasts_of (trace (state_of (fetchStats ?gw ?dw))) = toasts_of (trace ?dw)"
    .
  then have dashboard: "thrown (fetchStats ?gw ?dw) = None"
    "stats (state_of (fetchStats ?gw ?dw)) = \<lparr>total = 3, active = 2, inactive = 1\<rparr>"
    "toasts_of (trace (state_of (fetchStats ?gw ?dw))) = []"
    by (simp_all add: dashboard_of_def)
  from form fetch delete toggle search dashboard show ?thesis
    by (intro conjI)
qed

theorem C4_counterexample:
  "getAllEmployees (failing_backend TransportError) [] = Inl TransportError \<and>
   fetchStats (failing_backend TransportError)
       (dashboard_of \<lparr>total = 3, active = 2, inactive = 1\<rparr>) =
     Normal ((dashboard_of \<lparr>total = 3, active = 2, inactive = 1\<rparr>)\<lparr>trace :=
       [Call (GetAllEmployees []), ConsoleError (js ''Error fetching stats:'')]\<rparr>) \<and>
   toasts_of (trace (state_of (fetchStats (failing_backend TransportError)
       (dashboard_of \<lparr>total = 3, active = 2, inactive = 1\<rparr>)))) = [] \<and>
   length (toasts_of (trace (state_of (fetchStats (failing_backend TransportError)
       (dashboard_of \<lparr>total = 3, active = 2, inactive = 1\<rparr>))))) \<noteq> 1"
  by (simp add: fetchStats_def effect_defs failing_backend_def dashboard_of_def state_of_def)

subsection \<open>Searching\<close>

text \<open>
  Claim C5. When the trimmed query is empty, \<open>handleSearch\<close> shows the notification
  \<open>Please enter a search term\<close> and does nothing else: no call is made. Otherwise it
  calls the service. An empty answer is forwarded to the parent and the notification
  \<open>No employees found matching your search\<close> is shown; an answer that is not empty is
  forwarded as it is, with a success notification that carries its length, printed in
  decimal: the digits read back as the length and do not begin with a zero; and when
  the call fails a failure notification is shown and nothing is forwarded, so the
  results the dashboard holds stay as they were.
\<close>

theorem C5_search_outcomes:
  "(trim (searchTerm w) = [] \<longrightarrow>
      handleSearch gw w =
        Normal (w\<lparr>trace := trace w @ [Toast TInfo (js ''Please enter a search term'')]\<rparr>)) \<and>
   (trim (searchTerm w) \<noteq> [] \<and> searchEmployees gw (searchTerm w) = Inr [] \<longrightarrow>
      handleSearch gw w =
        Normal (w\<lparr>trace := trace w @
          [Call (SearchEmployees (searchTerm w)), OnSearchResults (Some []),
           Toast TInfo (js ''No employees found matching your search'')],
          loading := False\<rparr>)) \<and>
   (trim (searchTerm w) \<noteq> [] \<and> searchEmployees gw (searchTerm w) = Inr results \<and>
    results \<noteq> [] \<longrightarrow>
      handleSearch gw w =
        Normal (w\<lparr>trace := trace w @
          [Call (SearchEmployees (searchTerm w)), OnSearchResults (Some results),
           Toast TSuccess (js ''Found '' @ decimal_digits (length results) @ js '' employee(s)'')],
          loading := False\<rparr>) \<and>
      searchResults (callback (OnSearchResults (Some results)) d) = Some results \<and>
      digits_in_base 10 (decimal_digits (length results)) = Some (length results) \<and>
      hd (decimal_digits (length results)) \<noteq> 0x30) \<and>
   (trim (searchTerm w) \<noteq> [] \<and> searchEmployees gw (searchTerm w) = Inl e \<longrightarrow>
      handleSearch gw w =
        Normal (w\<lparr>trace := trace w @
          [Call (SearchEmployees (searchTerm w)), ConsoleError (js ''Error searching employees:''),
           Toast TError (js ''Failed to search employees'')],
          loading := False\<rparr>) \<and>
      searchResults (fold callback
          [Call (SearchEmployees (searchTerm w)), ConsoleError (js ''Error searching employees:''),
           Toast TError (js ''Failed to search employees'')] d) = searchResults d)"
proof -
  have forwarded: "searchResults (callback (OnSearchResults (Some results)) d) = Some results"
    by (simp add: handleSearchResults_def)
  show ?thesis
    using forwarded
    by (simp add: handleSearch_blank handleSearch_none_found handleSearch_found
        handleSearch_fails decimal_digits_read_back decimal_digits_no_leading_zero
        del: decimal_digits.simps)
qed

theorem C5_witness:
  "trim (searchTerm (search_of (js ''doe''))) \<noteq> [] \<and>
   searchEmployees (accepting_backend [jane_doe]) (searchTerm (search_of (js ''doe''))) =
     Inr [jane_doe] \<and>
   handleSearch (accepting_backend [jane_doe]) (search_of (js ''doe'')) =
     Normal ((search_of (js ''doe''))\<lparr>trace :=
       [Call (SearchEmployees (js ''doe'')), OnSearchResults (Some [jane_doe]),
        Toast TSuccess (js ''Found 1 employee(s)'')]\<rparr>) \<and>
   searchResults (callback (OnSearchResults (Some [jane_doe])) (dashboard_of \<lparr>total = 0, active = 0, inactive = 0\<rparr>)) =
     Some [jane_doe] \<and>
   trim (searchTerm (search_of (js '' ''))) = [] \<and>
   handleSearch (accepting_backend [jane_doe]) (search_of (js '' '')) =
     Normal ((search_of (js '' ''))\<lparr>trace := [Toast TInfo (js ''Please enter a search term'')]\<rparr>) \<and>
   searchEmployees (accepting_backend []) (searchTerm (search_of (js ''doe''))) = Inr [] \<and>
   handleSearch (accepting_backend []) (search_of (js ''doe'')) =
     Normal ((search_of (js ''doe''))\<lparr>trace :=
       [Call (SearchEmployees (js ''doe'')), OnSearchResults (Some []),
        Toast TInfo (js ''No employees found matching your search'')]\<rparr>) \<and>
   searchEmployees (failing_backend TransportError) (searchTerm (search_of (js ''doe''))) =
     Inl TransportError \<and>
   handleSearch (failing_backend TransportError) (search_of (js ''doe'')) =
     Normal ((search_of (js ''doe''))\<lparr>trace :=
       [Call (SearchEmployees (js ''doe'')), ConsoleError (js ''Error searching employees:''),
        Toast TError (js ''Failed to search employees'')]\<rparr>) \<and>
   searchEmployees (accepting_backend (replicate 12 jane_doe))
       (searchTerm (search_of (js ''doe''))) = Inr (replicate 12 jane_doe) \<and>
   replicate 12 jane_doe \<noteq> [] \<and>
   handleSearch (accepting_backend (replicate 12 jane_doe)) (search_of (js ''doe'')) =
     Normal ((search_of (js ''doe''))\<lparr>trace :=
       [Call (SearchEmployees (js ''doe'')), OnSearchResults (Some (replicate 12 jane_doe)),
        Toast TSuccess (js ''Found 12 employee(s)'')]\<rparr>) \<and>
   decimal_digits (length (replicate 12 jane_doe)) = js ''12'' \<and>
   digits_in_base 10 (js ''12'') = Some 12"
proof -
  let ?dw = "dashboard_of \<lparr>total = 0, active = 0, inactive = 0\<rparr>"
  have t1: "trim (js ''doe'') \<noteq> []" and t2: "trim (js '' '') = []"
    by (simp_all add: trim_def js_def js_whitespace_def)
  have found: "js ''Found '' @ decimal_digits (length [jane_doe]) @ js '' employee(s)'' =
      js ''Found 1 employee(s)''"
    by (simp add: js_def)
  have first:
    "trim (searchTerm (search_of (js ''doe''))) \<noteq> [] \<and>
     searchEmployees (accepting_backend [jane_doe]) (searchTerm (search_of (js ''doe''))) =
       Inr [jane_doe] \<and>
     handleSearch (accepting_backend [jane_doe]) (search_of (js ''doe'')) =
       Normal ((search_of (js ''doe''))\<lparr>trace :=
         [Call (SearchEmployees (js ''doe'')), OnSearchResults (Some [jane_doe]),
          Toast TSuccess (js ''Found 1 employee(s)'')]\<rparr>) \<and>
     searchResults (callback (OnSearchResults (Some [jane_doe])) ?dw) = Some [jane_doe] \<and>
     trim (searchTerm (search_of (js '' ''))) = [] \<and>
     handleSearch (accepting_backend [jane_doe]) (search_of (js '' '')) =
       Normal ((search_of (js '' ''))\<lparr>trace := [Toast TInfo (js ''Please enter a search term'')]\<rparr>) \<and>
     searchEmployees (accepting_backend []) (searchTerm (search_of (js ''doe''))) = Inr [] \<and>
     handleSearch (accepting_backend []) (search_of (js ''doe'')) =
       Normal ((search_of (js ''doe''))\<lparr>trace :=
         [Call (SearchEmployees (js ''doe'')), OnSearchResults (Some []),
          Toast TInfo (js ''No employees found matching your search'')]\<rparr>) \<and>
     searchEmployees (failing_backend TransportError) (searchTerm (search_of (js ''doe''))) =
       Inl TransportError \<and>
     handleSearch (failing_backend TransportError) (search_of (js ''doe'')) =
       Normal ((search_of (js ''doe''))\<lparr>trace :=
         [Call (SearchEmployees (js ''doe'')), ConsoleError (js ''Error searching employees:''),
          Toast TError (js ''Failed to search employees'')]\<rparr>)"
    using t1 t2 found
      C5_search_outcomes [of "search_of (js ''doe'')" "accepting_backend [jane_doe]"
        "[jane_doe]" ?dw TransportError]
      C5_search_outcomes [of "search_of (js '' '')" "accepting_backend [jane_doe]"
        "[jane_doe]" ?dw TransportError]
      C5_search_outcomes [of "search_of (js ''doe'')" "accepting_backend []"
        "[jane_doe]" ?dw TransportError]
      C5_search_outcomes [of "search_of (js ''doe'')" "failing_backend TransportError"
        "[jane_doe]" ?dw TransportError]
    by (simp add: search_of_def accepting_backend_def failing_backend_def
        del: decimal_digits.simps)
  let ?many = "replicate 12 jane_doe"
  have asked: "trim (searchTerm (search_of (js ''doe''))) \<noteq> []"
    using t1 by (simp add: search_of_def)
  have answered: "searchEmployees (accepting_backend ?many)
       (searchTerm (search_of (js ''doe''))) = Inr ?many"
    by (simp add: accepting_backend_def)
  have several: "?many \<noteq> []"
    by simp
  have printed: "decimal_digits (length ?many) = js ''12''"
    by (simp add: js_def)
  note many = C5_search_outcomes [of "search_of (js ''doe'')" "accepting_backend ?many" ?many
      ?dw TransportError, THEN conjunct2, THEN conjunct2, THEN conjunct1, THEN mp,
      OF conjI [OF asked conjI [OF answered several]]]
  from many [THEN conjunct1]
  have counted: "handleSearch (accepting_backend ?many) (search_of (js ''doe'')) =
     Normal ((search_of (js ''doe''))\<lparr>trace :=
       [Call (SearchEmployees (js ''doe'')), OnSearchResults (Some ?many),
        Toast TSuccess (js ''Found 12 employee(s)'')]\<rparr>)"
    unfolding printed by (simp add: search_of_def) (simp add: js_def)
  from many [THEN conjunct2, THEN conjunct2, THEN conjunct1]
  have read: "digits_in_base 10 (js ''12'') = Some 12"
    unfolding printed by simp
  from first answered several counted printed read show ?thesis
    by blast
qed

subsection \<open>The rules of validation\<close>

text \<open>
  Claim C6, as the code has it. The rules are evaluated one by one and every violation
  is collected: the entry of each key depends on its own field only, so no rule hides
  the message of another. An email that is not empty or white space only and contains
  no run of non-space units, \<open>@\<close>, a run of non-space units, a dot and a run of non-space
  units yields \<open>Email is invalid\<close>; \<open>a@b.co\<close> yields no email error. A salary that is
  present (truthy) and whose number is below zero, such as \<open>-5\<close>, yields
  \<open>Salary must be positive\<close>; the salary \<open>0\<close> and no salary yield none.
  The specification says \<open>Email is invalid\<close> of every email that is not empty and does
  not match; an email of white space only is such an email and yields
  \<open>Email is required\<close>, as the last theorem of this section shows.
\<close>

theorem C6_rules_collected_independently:
  "map_of (newErrors d) ''employee_id'' =
     (if whitespace_only (employee_id d) then Some (js ''Employee ID is required'') else None) \<and>
   map_of (newErrors d) ''first_name'' =
     (if whitespace_only (first_name d) then Some (js ''First name is required'') else None) \<and>
   map_of (newErrors d) ''last_name'' =
     (if whitespace_only (last_name d) then Some (js ''Last name is required'') else None) \<and>
   map_of (newErrors d) ''email'' =
     (if whitespace_only (email d) then Some (js ''Email is required'')
      else if \<exists>p a b c q. email d = p @ a @ [0x40] @ b @ [0x2E] @ c @ q \<and>
                nonspace_run a \<and> nonspace_run b \<and> nonspace_run c
      then None else Some (js ''Email is invalid'')) \<and>
   map_of (newErrors d) ''salary'' =
     (if truthy (salary d) \<and> below_zero (ToNumber (salary d))
      then Some (js ''Salary must be positive'') else None) \<and>
   fst ` set (newErrors d) \<subseteq>
     {''employee_id'', ''first_name'', ''last_name'', ''email'', ''salary''} \<and>
   (email d = js ''a@b.co'' \<longrightarrow> map_of (newErrors d) ''email'' = None) \<and>
   (email d = js ''not-an-email'' \<longrightarrow>
      map_of (newErrors d) ''email'' = Some (js ''Email is invalid'')) \<and>
   (salary d = JStr (js ''-5'') \<or> salary d = JNum (Finite (- 5)) \<longrightarrow>
      map_of (newErrors d) ''salary'' = Some (js ''Salary must be positive'')) \<and>
   (salary d = JStr (js ''0'') \<or> salary d = JNum (Finite 0) \<or> salary d = JStr [] \<longrightarrow>
      map_of (newErrors d) ''salary'' = None)"
proof -
  have required:
    "map_of (newErrors d) ''employee_id'' =
       (if whitespace_only (employee_id d) then Some (js ''Employee ID is required'') else None)"
    "map_of (newErrors d) ''first_name'' =
       (if whitespace_only (first_name d) then Some (js ''First name is required'') else None)"
    "map_of (newErrors d) ''last_name'' =
       (if whitespace_only (last_name d) then Some (js ''Last name is required'') else None)"
    by (simp_all add: newErrors_employee_id newErrors_first_name newErrors_last_name
        trim_empty_iff whitespace_only_def)
  have mail: "map_of (newErrors d) ''email'' =
     (if whitespace_only (email d) then Some (js ''Email is required'')
      else if \<exists>p a b c q. email d = p @ a @ [0x40] @ b @ [0x2E] @ c @ q \<and>
                nonspace_run a \<and> nonspace_run b \<and> nonspace_run c
      then None else Some (js ''Email is invalid''))"
    unfolding newErrors_email email_pattern_test
    by (simp add: trim_empty_iff whitespace_only_def)
  have mail_samples:
    "email d = js ''a@b.co'' \<longrightarrow> map_of (newErrors d) ''email'' = None"
    "email d = js ''not-an-email'' \<longrightarrow>
       map_of (newErrors d) ''email'' = Some (js ''Email is invalid'')"
    using email_samples by (simp_all add: newErrors_email)
  have pay: "map_of (newErrors d) ''salary'' =
     (if truthy (salary d) \<and> below_zero (ToNumber (salary d))
      then Some (js ''Salary must be positive'') else None)"
    by (rule newErrors_salary)
  have pay_samples:
    "salary d = JStr (js ''-5'') \<or> salary d = JNum (Finite (- 5)) \<longrightarrow>
       map_of (newErrors d) ''salary'' = Some (js ''Salary must be positive'')"
    "salary d = JStr (js ''0'') \<or> salary d = JNum (Finite 0) \<or> salary d = JStr [] \<longrightarrow>
       map_of (newErrors d) ''salary'' = None"
    using salary_samples by (auto simp: newErrors_salary)
  from required mail pay newErrors_keys [of d] mail_samples pay_samples show ?thesis
    by (intro conjI)
qed

theorem C6_witness:
  "newErrors (ann_lee\<lparr>first_name := [], email := js ''not-an-email'', salary := JStr (js ''-5'')\<rparr>) =
     [(''first_name'', js ''First name is required''), (''email'', js ''Email is invalid''),
      (''salary'', js ''Salary must be positive'')] \<and>
   map_of (newErrors (ann_lee\<lparr>first_name := [], email := js ''not-an-email'',
       salary := JStr (js ''-5'')\<rparr>)) ''email'' = Some (js ''Email is invalid'') \<and>
   map_of (newErrors (ann_lee\<lparr>first_name := [], email := js ''not-an-email'',
       salary := JStr (js ''-5'')\<rparr>)) ''salary'' = Some (js ''Salary must be positive'') \<and>
   map_of (newErrors (ann_lee\<lparr>first_name := [], email := js ''not-an-email'',
       salary := JStr (js ''-5'')\<rparr>)) ''first_name'' = Some (js ''First name is required'') \<and>
   map_of (newErrors (ann_lee\<lparr>email := js ''a@b.co'', salary := JStr (js ''0'')\<rparr>)) ''email'' = None \<and>
   map_of (newErrors (ann_lee\<lparr>email := js ''a@b.co'', salary := JStr (js ''0'')\<rparr>)) ''salary'' = None"
proof -
  let ?bad = "ann_lee\<lparr>first_name := [], email := js ''not-an-email'', salary := JStr (js ''-5'')\<rparr>"
  let ?good = "ann_lee\<lparr>email := js ''a@b.co'', salary := JStr (js ''0'')\<rparr>"
  have fields: "trim (employee_id ann_lee) \<noteq> []" "trim (last_name ann_lee) \<noteq> []"
    by (simp_all add: ann_lee_def initial_formData_def string_eval)
  have all_three: "newErrors ?bad =
     [(''first_name'', js ''First name is required''), (''email'', js ''Email is invalid''),
      (''salary'', js ''Salary must be positive'')]"
    using fields email_samples salary_samples
    by (simp add: newErrors_def) (simp add: trim_def)
  have bad: "email ?bad = js ''not-an-email''" "salary ?bad = JStr (js ''-5'')"
    "whitespace_only (first_name ?bad)"
    by (simp_all add: whitespace_only_def)
  have good: "email ?good = js ''a@b.co''" "salary ?good = JStr (js ''0'')"
    by simp_all
  note claim_bad = C6_rules_collected_independently [of ?bad]
  note claim_good = C6_rules_collected_independently [of ?good]
  from claim_bad bad(1) have r1: "map_of (newErrors ?bad) ''email'' = Some (js ''Email is invalid'')"
    by blast
  from claim_bad bad(2) have r2:
    "map_of (newErrors ?bad) ''salary'' = Some (js ''Salary must be positive'')"
    by blast
  from claim_bad have "map_of (newErrors ?bad) ''first_name'' =
      (if whitespace_only (first_name ?bad) then Some (js ''First name is required'') else None)"
    by blast
  with bad(3) have r3: "map_of (newErrors ?bad) ''first_name'' = Some (js ''First name is required'')"
    by (simp only: if_True)
  from claim_good good(1) have r4: "map_of (newErrors ?good) ''email'' = None"
    by blast
  from claim_good good(2) have r5: "map_of (newErrors ?good) ''salary'' = None"
    by blast
  from all_three r1 r2 r3 r4 r5 show ?thesis
    by (intro conjI)
qed

theorem C6_counterexample:
  "email (ann_lee\<lparr>email := js '' ''\<rparr>) \<noteq> [] \<and>
   \<not> regex_test email_pattern (email (ann_lee\<lparr>email := js '' ''\<rparr>)) \<and>
   map_of (newErrors (ann_lee\<lparr>email := js '' ''\<rparr>)) ''email'' = Some (js ''Email is required'') \<and>
   js ''Email is required'' \<noteq> js ''Email is invalid''"
  by (simp add: newErrors_email string_eval regex_eval)

subsection \<open>Deleting a record\<close>

text \<open>
  Claim C7. For every key, when the user declines the confirmation \<open>handleDelete\<close>
  makes no call and leaves the state of the list as it is (the trace gains the
  question only). When the user confirms, \<open>deleteEmployee\<close> is called once with that
  key. If it succeeds, the success notification is shown and the list is fetched again,
  once: the calls made are the deletion and then the list request, and the only other
  notification there can be is that of a failed list request. If it fails, the
  notification \<open>Failed to delete employee\<close> is shown, no other call is made and the
  state of the list is not changed.
\<close>

theorem C7_delete_after_confirmation:
  "(\<not> window_confirm (js ''Are you sure you want to delete '' @ employeeName @ js ''?'') \<longrightarrow>
      handleDelete gw window_confirm i employeeName w =
        Normal (w\<lparr>trace := trace w @
          [Confirm (js ''Are you sure you want to delete '' @ employeeName @ js ''?'')]\<rparr>)) \<and>
   (window_confirm (js ''Are you sure you want to delete '' @ employeeName @ js ''?'') \<and>
    deleteEmployee gw i = Inr u \<longrightarrow>
      handleDelete gw window_confirm i employeeName w =
        fetchEmployees gw (w\<lparr>trace := trace w @
          [Confirm (js ''Are you sure you want to delete '' @ employeeName @ js ''?''),
           Call (DeleteEmployee i), Toast TSuccess (js ''Employee deleted successfully'')]\<rparr>) \<and>
      calls_of (trace (state_of (handleDelete gw window_confirm i employeeName w))) =
        calls_of (trace w) @ [DeleteEmployee i, GetAllEmployees (fetch_params (filters w))] \<and>
      toasts_of (trace (state_of (handleDelete gw window_confirm i employeeName w))) =
        toasts_of (trace w) @ (TSuccess, js ''Employee deleted successfully'') #
          (case getAllEmployees gw (fetch_params (filters w)) of
             Inl e \<Rightarrow> [(TError, js ''Failed to fetch employees'')]
           | Inr data \<Rightarrow> []) \<and>
      thrown (handleDelete gw window_confirm i employeeName w) = None) \<and>
   (window_confirm (js ''Are you sure you want to delete '' @ employeeName @ js ''?'') \<and>
    deleteEmployee gw i = Inl e \<longrightarrow>
      handleDelete gw window_confirm i employeeName w =
        Normal (w\<lparr>trace := trace w @
          [Confirm (js ''Are you sure you want to delete '' @ employeeName @ js ''?''),
           Call (DeleteEmployee i), ConsoleError (js ''Error deleting employee:''),
           Toast TError (js ''Failed to delete employee'')]\<rparr>))"
proof -
  have ok: "calls_of (trace (state_of (handleDelete gw window_confirm i employeeName w))) =
        calls_of (trace w) @ [DeleteEmployee i, GetAllEmployees (fetch_params (filters w))] \<and>
      toasts_of (trace (state_of (handleDelete gw window_confirm i employeeName w))) =
        toasts_of (trace w) @ (TSuccess, js ''Employee deleted successfully'') #
          (case getAllEmployees gw (fetch_params (filters w)) of
             Inl e \<Rightarrow> [(TError, js ''Failed to fetch employees'')]
           | Inr data \<Rightarrow> []) \<and>
      thrown (handleDelete gw window_confirm i employeeName w) = None"
    if "window_confirm (js ''Are you sure you want to delete '' @ employeeName @ js ''?'')"
      and "deleteEmployee gw i = Inr u"
    using that
    by (simp add: handleDelete_ok fetchEmployees_calls fetchEmployees_toasts
        fetchEmployees_thrown calls_of_append toasts_of_append)
  show ?thesis
    using ok by (simp add: handleDelete_declined handleDelete_ok handleDelete_fails)
qed

theorem C7_witness:
  "handleDelete (accepting_backend []) (\<lambda>q. False) 7 (js ''Jane Doe'') (list_of [jane_doe]) =
     Normal ((list_of [jane_doe])\<lparr>trace :=
       [Confirm (js ''Are you sure you want to delete Jane Doe?'')]\<rparr>) \<and>
   handleDelete (accepting_backend []) (\<lambda>q. True) 7 (js ''Jane Doe'') (list_of [jane_doe]) =
     Normal ((list_of [])\<lparr>trace :=
       [Confirm (js ''Are you sure you want to delete Jane Doe?''), Call (DeleteEmployee 7),
        Toast TSuccess (js ''Employee deleted successfully''), Call (GetAllEmployees [])]\<rparr>) \<and>
   calls_of (trace (state_of (handleDelete (accepting_backend []) (\<lambda>q. True) 7 (js ''Jane Doe'')
     (list_of [jane_doe])))) = [DeleteEmployee 7, GetAllEmployees []] \<and>
   handleDelete (failing_backend TransportError) (\<lambda>q. True) 7 (js ''Jane Doe'')
       (list_of [jane_doe]) =
     Normal ((list_of [jane_doe])\<lparr>trace :=
       [Confirm (js ''Are you sure you want to delete Jane Doe?''), Call (DeleteEmployee 7),
        ConsoleError (js ''Error deleting employee:''),
        Toast TError (js ''Failed to delete employee'')]\<rparr>)"
proof -
  have question: "js ''Are you sure you want to delete '' @ js ''Jane Doe'' @ js ''?'' =
      js ''Are you sure you want to delete Jane Doe?''"
    by (simp add: js_def)
  have refetch: "fetchEmployees (accepting_backend []) ((list_of [jane_doe])\<lparr>trace :=
       [Confirm (js ''Are you sure you want to delete Jane Doe?''), Call (DeleteEmployee 7),
        Toast TSuccess (js ''Employee deleted successfully'')]\<rparr>) =
     Normal ((list_of [])\<lparr>trace :=
       [Confirm (js ''Are you sure you want to delete Jane Doe?''), Call (DeleteEmployee 7),
        Toast TSuccess (js ''Employee deleted successfully''), Call (GetAllEmployees [])]\<rparr>)"
    by (simp add: fetchEmployees_ok [where data = "\<lparr>data_employees = Some [], data_total = Some 0\<rparr>"]
        accepting_backend_def list_of_def fetch_params_def)
  show ?thesis
    using question refetch
      C7_delete_after_confirmation [of "\<lambda>q. False" "js ''Jane Doe''" "accepting_backend []" 7
        "list_of [jane_doe]" "()" TransportError]
      C7_delete_after_confirmation [of "\<lambda>q. True" "js ''Jane Doe''" "accepting_backend []" 7
        "list_of [jane_doe]" "()" TransportError]
      C7_delete_after_confirmation [of "\<lambda>q. True" "js ''Jane Doe''"
        "failing_backend TransportError" 7 "list_of [jane_doe]" "()" TransportError]
    by (simp add: accepting_backend_def failing_backend_def list_of_def fetch_params_def
        state_of_def)
qed

subsection \<open>Activating and deactivating\<close>

text \<open>
  Claim C8. \<open>handleToggleStatus\<close> calls \<open>deactivateEmployee\<close> with the key when the
  current status is true and \<open>activateEmployee\<close> when it is false. When the call
  succeeds, the notification of that case is shown (the name followed by
  \<open>deactivated\<close>, or by \<open>activated\<close>) and the list is fetched again; the only other
  notification there can be is that of a failed list request. When the call
  fails, the only notification is \<open>Failed to update status\<close> and the list is not
  fetched.
\<close>

theorem C8_toggle_status:
  "(deactivateEmployee gw i = Inr r \<longrightarrow>
      handleToggleStatus gw i True employeeName w =
        fetchEmployees gw (w\<lparr>trace := trace w @
          [Call (DeactivateEmployee i), Toast TSuccess (employeeName @ js '' deactivated'')]\<rparr>) \<and>
      calls_of (trace (state_of (handleToggleStatus gw i True employeeName w))) =
        calls_of (trace w) @ [DeactivateEmployee i, GetAllEmployees (fetch_params (filters w))] \<and>
      toasts_of (trace (state_of (handleToggleStatus gw i True employeeName w))) =
        toasts_of (trace w) @ (TSuccess, employeeName @ js '' deactivated'') #
          (case getAllEmployees gw (fetch_params (filters w)) of
             Inl e \<Rightarrow> [(TError, js ''Failed to fetch employees'')]
           | Inr data \<Rightarrow> [])) \<and>
   (activateEmployee gw i = Inr r \<longrightarrow>
      handleToggleStatus gw i False employeeName w =
        fetchEmployees gw (w\<lparr>trace := trace w @
          [Call (ActivateEmployee i), Toast TSuccess (employeeName @ js '' activated'')]\<rparr>) \<and>
      calls_of (trace (state_of (handleToggleStatus gw i False employeeName w))) =
        calls_of (trace w) @ [ActivateEmployee i, GetAllEmployees (fetch_params (filters w))] \<and>
      toasts_of (trace (state_of (handleToggleStatus gw i False employeeName w))) =
        toasts_of (trace w) @ (TSuccess, employeeName @ js '' activated'') #
          (case getAllEmployees gw (fetch_params (filters w)) of
             Inl e \<Rightarrow> [(TError, js ''Failed to fetch employees'')]
           | Inr data \<Rightarrow> [])) \<and>
   (deactivateEmployee gw i = Inl e \<longrightarrow>
      handleToggleStatus gw i True employeeName w =
        Normal (w\<lparr>trace := trace w @
          [Call (DeactivateEmployee i), ConsoleError (js ''Error toggling status:''),
           Toast TError (js ''Failed to update status'')]\<rparr>) \<and>
      toasts_of (trace (state_of (handleToggleStatus gw i True employeeName w))) =
        toasts_of (trace w) @ [(TError, js ''Failed to update status'')]) \<and>
   (activateEmployee gw i = Inl e \<longrightarrow>
      handleToggleStatus gw i False employeeName w =
        Normal (w\<lparr>trace := trace w @
          [Call (ActivateEmployee i), ConsoleError (js ''Error toggling status:''),
           Toast TError (js ''Failed to update status'')]\<rparr>) \<and>
      toasts_of (trace (state_of (handleToggleStatus gw i False employeeName w))) =
        toasts_of (trace w) @ [(TError, js ''Failed to update status'')])"
proof -
  have refetched:
    "calls_of (trace (state_of (fetchEmployees gw
        (w\<lparr>trace := trace w @ [Call c, Toast TSuccess msg]\<rparr>)))) =
       calls_of (trace w) @ [c, GetAllEmployees (fetch_params (filters w))]"
    "toasts_of (trace (state_of (fetchEmployees gw
        (w\<lparr>trace := trace w @ [Call c, Toast TSuccess msg]\<rparr>)))) =
       toasts_of (trace w) @ (TSuccess, msg) #
         (case getAllEmployees gw (fetch_params (filters w)) of
            Inl e \<Rightarrow> [(TError, js ''Failed to fetch employees'')]
          | Inr data \<Rightarrow> [])" for c msg
    by (simp_all add: fetchEmployees_calls fetchEmployees_toasts calls_of_append
        toasts_of_append)
  have failed:
    "toasts_of (trace (state_of (Normal (w\<lparr>trace := trace w @
        [Call c, ConsoleError (js ''Error toggling status:''),
         Toast TError (js ''Failed to update status'')]\<rparr>)))) =
     toasts_of (trace w) @ [(TError, js ''Failed to update status'')]" for c
    by (simp add: state_of_def toasts_of_append)
  show ?thesis
    using refetched failed
    by (simp add: handleToggleStatus_deactivate_ok handleToggleStatus_activate_ok
        handleToggleStatus_deactivate_fails handleToggleStatus_activate_fails)
qed

theorem C8_witness:
  "handleToggleStatus (accepting_backend [jane_doe]) 7 True (js ''Jane Doe'') (list_of []) =
     Normal ((list_of [jane_doe])\<lparr>trace :=
       [Call (DeactivateEmployee 7), Toast TSuccess (js ''Jane Doe deactivated''),
        Call (GetAllEmployees [])]\<rparr>) \<and>
   handleToggleStatus (accepting_backend [jane_doe]) 7 False (js ''Jane Doe'') (list_of []) =
     Normal ((list_of [jane_doe])\<lparr>trace :=
       [Call (ActivateEmployee 7), Toast TSuccess (js ''Jane Doe activated''),
        Call (GetAllEmployees [])]\<rparr>) \<and>
   handleToggleStatus (failing_backend TransportError) 7 True (js ''Jane Doe'') (list_of []) =
     Normal ((list_of [])\<lparr>trace :=
       [Call (DeactivateEmployee 7), ConsoleError (js ''Error toggling status:''),
        Toast TError (js ''Failed to update status'')]\<rparr>) \<and>
   toasts_of (trace (state_of (handleToggleStatus (failing_backend TransportError) 7 False
       (js ''Jane Doe'') (list_of [])))) = [(TError, js ''Failed to update status'')]"
proof -
  have names: "js ''Jane Doe'' @ js '' deactivated'' = js ''Jane Doe deactivated''"
    "js ''Jane Doe'' @ js '' activated'' = js ''Jane Doe activated''"
    by (simp_all add: js_def)
  have refetch: "fetchEmployees (accepting_backend [jane_doe]) ((list_of [])\<lparr>trace := evs\<rparr>) =
     Normal ((list_of [jane_doe])\<lparr>trace := evs @ [Call (GetAllEmployees [])]\<rparr>)" for evs
    by (simp add: fetchEmployees_ok
        [where data = "\<lparr>data_employees = Some [jane_doe], data_total = Some 1\<rparr>"]
        accepting_backend_def list_of_def fetch_params_def)
  show ?thesis
    using names refetch
      C8_toggle_status [of "accepting_backend [jane_doe]" 7
        "jane_doe\<lparr>is_active := False, id' := 7\<rparr>" "js ''Jane Doe''" "list_of []" TransportError]
      C8_toggle_status [of "accepting_backend [jane_doe]" 7
        "jane_doe\<lparr>is_active := True, id' := 7\<rparr>" "js ''Jane Doe''" "list_of []" TransportError]
      C8_toggle_status [of "failing_backend TransportError" 7
        "jane_doe" "js ''Jane Doe''" "list_of []" TransportError]
    by (simp add: accepting_backend_def failing_backend_def list_of_def state_of_def)
qed

subsection \<open>The query sent by a search\<close>

text \<open>
  Claim C9. For every query whose trimmed form is not empty, \<open>handleSearch\<close> calls
  \<open>searchEmployees\<close> with the query as typed, and the service sends that string as the
  parameter \<open>q\<close>: trimming serves the emptiness check only.
\<close>

theorem C9_search_sends_untrimmed_query:
  "trim (searchTerm w) \<noteq> [] \<longrightarrow>
     calls_of (trace (state_of (handleSearch gw w))) =
       calls_of (trace w) @ [SearchEmployees (searchTerm w)] \<and>
     query (request_of (SearchEmployees (searchTerm w))) = [(''q'', QStr (searchTerm w))]"
  by (cases "searchEmployees gw (searchTerm w)")
    (simp_all add: handleSearch_def effect_defs state_of_def calls_of_append
      del: decimal_digits.simps)

theorem C9_witness:
  "trim (searchTerm (search_of (js '' doe ''))) = js ''doe'' \<and>
   calls_of (trace (state_of (handleSearch (accepting_backend []) (search_of (js '' doe ''))))) =
     [SearchEmployees (js '' doe '')] \<and>
   query (request_of (SearchEmployees (js '' doe ''))) = [(''q'', QStr (js '' doe ''))] \<and>
   js '' doe '' \<noteq> js ''doe''"
proof -
  have t: "trim (js '' doe '') = js ''doe''" "js '' doe '' \<noteq> js ''doe''" "js ''doe'' \<noteq> []"
    by (simp_all add: trim_def js_def js_whitespace_def)
  show ?thesis
    using t C9_search_sends_untrimmed_query [of "search_of (js '' doe '')" "accepting_backend []"]
    by (simp add: search_of_def)
qed

subsection \<open>The payload of an update\<close>

text \<open>
  Claim C10. When the form edits an existing record and the draft is valid,
  \<open>handleSubmit\<close> calls \<open>updateEmployee\<close> with the key of the record and a payload that
  still holds \<open>employee_id\<close> and \<open>is_active\<close>, as they stand in the draft; the service sends
  the payload as the body of the request. For the draft seeded from the record these are
  the record's own \<open>employee_id\<close> and \<open>is_active\<close>. What keeps \<open>employee_id\<close> from changing
  is that its input is disabled while a record is edited (and enabled for a new one).
\<close>

theorem C10_update_payload_keeps_employee_id:
  "(newErrors (formData w) = [] \<longrightarrow>
      calls_of (trace (state_of (handleSubmit gw (Some r) w))) =
        calls_of (trace w) @ [UpdateEmployee (id' r) (dataToSubmit (formData w))]) \<and>
   employee_id (dataToSubmit (formData w)) = employee_id (formData w) \<and>
   is_active (dataToSubmit (formData w)) = is_active (formData w) \<and>
   body (request_of (UpdateEmployee (id' r) (dataToSubmit (formData w)))) =
     Some (dataToSubmit (formData w)) \<and>
   employee_id (dataToSubmit (seed_formData r)) = employee_id r \<and>
   is_active (dataToSubmit (seed_formData r)) = is_active r \<and>
   employee_id_disabled (Some r) \<and> \<not> employee_id_disabled None"
proof -
  have called: "calls_of (trace (state_of (handleSubmit gw (Some r) w))) =
        calls_of (trace w) @ [UpdateEmployee (id' r) (dataToSubmit (formData w))]"
    if "newErrors (formData w) = []"
    using that
    by (cases "updateEmployee gw (id' r) (dataToSubmit (formData w))")
      (simp_all add: handleSubmit_update_ok handleSubmit_update_fails state_of_def
        calls_of_append)
  show ?thesis
    using called
    by (simp add: dataToSubmit_def seed_formData_def employee_id_disabled_def)
qed

theorem C10_witness:
  "newErrors (formData (form_of (seed_formData jane_doe))) = [] \<and>
   calls_of (trace (state_of (handleSubmit (accepting_backend []) (Some jane_doe)
       (form_of (seed_formData jane_doe))))) =
     [UpdateEmployee 7
       \<lparr>employee_id = js ''E007'', first_name = js ''Jane'', last_name = js ''Doe'',
        email = js ''jane@x.com'', phone = None, department = Some (js ''Sales''),
        position = None, salary = Some (Finite 50000), hire_date = None, is_active = True\<rparr>] \<and>
   employee_id (dataToSubmit (seed_formData jane_doe)) = js ''E007'' \<and>
   employee_id_disabled (Some jane_doe)"
proof -
  have key: "id' jane_doe = 7"
    by (simp add: jane_doe_def)
  have valid: "newErrors (formData (form_of (seed_formData jane_doe))) = []"
    by (simp add: form_of_def newErrors_seed_jane_doe)
  have started: "trace (form_of (seed_formData jane_doe)) = []"
    "formData (form_of (seed_formData jane_doe)) = seed_formData jane_doe"
    by (simp_all add: form_of_def)
  note claim = C10_update_payload_keeps_employee_id [of "form_of (seed_formData jane_doe)"
      "accepting_backend []" jane_doe]
  from claim valid have called:
    "calls_of (trace (state_of (handleSubmit (accepting_backend []) (Some jane_doe)
       (form_of (seed_formData jane_doe))))) =
     calls_of (trace (form_of (seed_formData jane_doe))) @
       [UpdateEmployee (id' jane_doe) (dataToSubmit (formData (form_of (seed_formData jane_doe))))]"
    by blast
  from claim have kept: "employee_id (dataToSubmit (seed_formData jane_doe)) = employee_id jane_doe"
    and disabled: "employee_id_disabled (Some jane_doe)"
    by blast+
  have "employee_id jane_doe = js ''E007''"
    by (simp add: jane_doe_def)
  with kept valid disabled show ?thesis
    unfolding called started key dataToSubmit_seed_jane_doe by simp
qed

end
